theory Spec2Isabelle
  imports Main "HOL-Library.Sublist" "HOL-Library.Word"
begin

unbundle bit_operations_syntax

section \<open>Configuration data (package config)\<close>

record AssetSource =
  K3sBinary :: string
  K3sAirgapTarball :: string

record Cluster =
  FlannelBackend :: string
  ClusterCidr :: string
  ServiceCidr :: string
  Token :: string
  TLSSAN :: "string list"
  Disable :: "string list"
  DataDir :: string
  EmbeddedRegistry :: bool
  Registries :: string

record Node =
  NodeName :: string
  IP :: string
  Port :: int
  User :: string
  Password :: string
  KeyPath :: string
  Labels :: "string list"

record Config =
  cluster :: Cluster
  assets :: AssetSource
  servers :: "Node list"
  agents :: "Node list"

text \<open>
  The \<^verbatim>\<open>Installer\<close> struct. Its \<^verbatim>\<open>assetManager\<close> field is a pointer to mutable state
  and is threaded through the stateful operations separately (see \<open>AssetManager\<close> below).
\<close>

record Installer =
  cfg :: Config
  assetsDir :: string
  templateAssetsDir :: string
  verbose :: bool

section \<open>Service unit generation (package install)\<close>

text \<open>Go's \<^verbatim>\<open>strings.Join(elems, sep)\<close>.\<close>

fun joinStr :: "string list \<Rightarrow> string \<Rightarrow> string" where
  "joinStr [] sep = []"
| "joinStr [a] sep = a"
| "joinStr (a # b # rest) sep = a @ sep @ joinStr (b # rest) sep"

text \<open>
  The loop \<^verbatim>\<open>for _, s := range xs { if s != "" { args = append(args, flag, s) } }\<close>,
  which occurs for \<^verbatim>\<open>--tls-san\<close>, \<^verbatim>\<open>--disable\<close> and \<^verbatim>\<open>--node-label\<close>.
\<close>

fun rangeAppend :: "string \<Rightarrow> string list \<Rightarrow> string list \<Rightarrow> string list" where
  "rangeAppend flag [] args = args"
| "rangeAppend flag (s # rest) args =
     rangeAppend flag rest (if s \<noteq> [] then args @ [flag, s] else args)"

definition unitService :: "string \<Rightarrow> string \<Rightarrow> string" where
  "unitService name exec =
     ''[Unit]'' @ [CHR 0x0A] @
     ''Description='' @ name @ [CHR 0x0A] @
     ''After=network.target'' @ [CHR 0x0A] @
     ''[Service]'' @ [CHR 0x0A] @
     ''Type=notify'' @ [CHR 0x0A] @
     ''ExecStart='' @ exec @ [CHR 0x0A] @
     ''Restart=always'' @ [CHR 0x0A] @
     ''LimitNOFILE=1048576'' @ [CHR 0x0A] @
     ''[Install]'' @ [CHR 0x0A] @
     ''WantedBy=multi-user.target'' @ [CHR 0x0A]"

text \<open>The value of \<^verbatim>\<open>args\<close> in \<^verbatim>\<open>serverServiceContent\<close> when the loops have run.\<close>

definition serverServiceArgs :: "Installer \<Rightarrow> Node \<Rightarrow> string \<Rightarrow> bool \<Rightarrow> string list" where
  "serverServiceArgs i node primaryIP isPrimary =
    (let c = cluster (cfg i);
         args = [];
         args = (if isPrimary then args @ [''server'', ''--cluster-init'']
                 else args @ [''server'', ''--server'', ''https://'' @ primaryIP @ '':6443'']);
         args = (if FlannelBackend c \<noteq> [] then args @ [''--flannel-backend'', FlannelBackend c] else args);
         args = (if ClusterCidr c \<noteq> [] then args @ [''--cluster-cidr'', ClusterCidr c] else args);
         args = (if ServiceCidr c \<noteq> [] then args @ [''--service-cidr'', ServiceCidr c] else args);
         args = (if DataDir c \<noteq> [] then args @ [''--data-dir'', DataDir c] else args);
         args = (if NodeName node \<noteq> [] then args @ [''--node-name'', NodeName node] else args);
         args = (if EmbeddedRegistry c then args @ [''--embedded-registry''] else args);
         args = rangeAppend ''--tls-san'' (TLSSAN c) args;
         args = rangeAppend ''--disable'' (Disable c) args;
         args = rangeAppend ''--node-label'' (Labels node) args
     in args)"

definition serverServiceCmd :: "Installer \<Rightarrow> Node \<Rightarrow> string \<Rightarrow> bool \<Rightarrow> string" where
  "serverServiceCmd i node primaryIP isPrimary =
     ''/usr/local/bin/k3s '' @ joinStr (serverServiceArgs i node primaryIP isPrimary) '' ''
       @ '' --token '' @ Token (cluster (cfg i))"

definition serverServiceContent :: "Installer \<Rightarrow> Node \<Rightarrow> string \<Rightarrow> bool \<Rightarrow> string" where
  "serverServiceContent i node primaryIP isPrimary =
     unitService ''k3s'' (serverServiceCmd i node primaryIP isPrimary)"

definition agentServiceArgs :: "Installer \<Rightarrow> Node \<Rightarrow> string \<Rightarrow> string list" where
  "agentServiceArgs i node primaryIP =
    (let c = cluster (cfg i);
         args = [];
         args = args @ [''agent'', ''--server'', ''https://'' @ primaryIP @ '':6443''];
         args = (if DataDir c \<noteq> [] then args @ [''--data-dir'', DataDir c] else args);
         args = (if NodeName node \<noteq> [] then args @ [''--node-name'', NodeName node] else args);
         args = rangeAppend ''--node-label'' (Labels node) args;
         args = args @ [''--token'', Token c]
     in args)"

definition agentServiceCmd :: "Installer \<Rightarrow> Node \<Rightarrow> string \<Rightarrow> string" where
  "agentServiceCmd i node primaryIP =
     ''/usr/local/bin/k3s '' @ joinStr (agentServiceArgs i node primaryIP) '' ''"

definition agentServiceContent :: "Installer \<Rightarrow> Node \<Rightarrow> string \<Rightarrow> string" where
  "agentServiceContent i node primaryIP =
     unitService ''k3s-agent'' (agentServiceCmd i node primaryIP)"

section \<open>Errors\<close>

text \<open>A Go \<^verbatim>\<open>error\<close> value, identified with its message (\<^verbatim>\<open>err.Error()\<close>).\<close>

datatype error = Error string

fun errMsg :: "error \<Rightarrow> string" where
  "errMsg (Error m) = m"

section \<open>Configuration validation (package config)\<close>

text \<open>
  \<^verbatim>\<open>net.IP\<close> and \<^verbatim>\<open>net.IPMask\<close> are byte slices; \<^verbatim>\<open>net.IPNet\<close> is a struct of the two.
  The functions \<open>To4\<close>, \<open>ipEqual\<close>, \<open>networkNumberAndMask\<close> and \<open>Contains\<close> follow the
  Go standard library (package \<^verbatim>\<open>net\<close>), which \<^verbatim>\<open>cidrsEqual\<close> and \<^verbatim>\<open>cidrsOverlap\<close> call.
\<close>

type_synonym byte = "8 word"

record IPNet =
  netIP :: "byte list"
  netMask :: "byte list"

definition v4InV6Prefix :: "byte list" where
  "v4InV6Prefix = [0, 0, 0, 0, 0, 0, 0, 0, 0, 0, 0xff, 0xff]"

text \<open>\<^verbatim>\<open>IP.To4\<close>; \<open>None\<close> is the nil slice.\<close>

definition To4 :: "byte list \<Rightarrow> byte list option" where
  "To4 ip =
     (if length ip = 4 then Some ip
      else if length ip = 16 \<and> take 12 ip = v4InV6Prefix then Some (drop 12 ip)
      else None)"

text \<open>\<^verbatim>\<open>IP.Equal\<close>.\<close>

definition ipEqual :: "byte list \<Rightarrow> byte list \<Rightarrow> bool" where
  "ipEqual ip x =
     (if length ip = length x then ip = x
      else if length ip = 4 \<and> length x = 16 then take 12 x = v4InV6Prefix \<and> ip = drop 12 x
      else if length ip = 16 \<and> length x = 4 then take 12 ip = v4InV6Prefix \<and> drop 12 ip = x
      else False)"

definition networkNumberAndMask :: "IPNet \<Rightarrow> (byte list \<times> byte list) option" where
  "networkNumberAndMask n =
     (case (case To4 (netIP n) of
              Some ip \<Rightarrow> Some ip
            | None \<Rightarrow> (if length (netIP n) \<noteq> 16 then None else Some (netIP n))) of
        None \<Rightarrow> None
      | Some ip \<Rightarrow>
          (if length (netMask n) = 4 then
             (if length ip \<noteq> 4 then None else Some (ip, netMask n))
           else if length (netMask n) = 16 then
             (if length ip = 4 then Some (ip, drop 12 (netMask n)) else Some (ip, netMask n))
           else None))"

text \<open>
  \<^verbatim>\<open>IPNet.Contains\<close>. When \<open>networkNumberAndMask\<close> yields nil, \<^verbatim>\<open>nn\<close> has length 0 and the
  loop body never runs.
\<close>

definition Contains :: "IPNet \<Rightarrow> byte list \<Rightarrow> bool" where
  "Contains n ip0 =
     (let ip = (case To4 ip0 of Some x \<Rightarrow> x | None \<Rightarrow> ip0);
          l = length ip
      in case networkNumberAndMask n of
           None \<Rightarrow> l = 0
         | Some (nn, m) \<Rightarrow>
             l = length nn \<and> list_all (\<lambda>i. (nn ! i) AND (m ! i) = (ip ! i) AND (m ! i)) [0..<l])"

text \<open>\<^verbatim>\<open>bytesEqual\<close>: equal lengths and equal bytes at every index.\<close>

definition bytesEqual :: "byte list \<Rightarrow> byte list \<Rightarrow> bool" where
  "bytesEqual a b =
     (if length a \<noteq> length b then False
      else list_all (\<lambda>i. a ! i = b ! i) [0..<length a])"

definition cidrsEqual :: "IPNet \<Rightarrow> IPNet \<Rightarrow> bool" where
  "cidrsEqual a b = (ipEqual (netIP a) (netIP b) \<and> bytesEqual (netMask a) (netMask b))"

definition cidrsOverlap :: "IPNet \<Rightarrow> IPNet \<Rightarrow> bool" where
  "cidrsOverlap a b = (Contains a (netIP b) \<or> Contains b (netIP a))"

text \<open>
  The parsers of the standard library are parameters of the model:
  \<open>parseCIDR\<close> is the network returned by \<^verbatim>\<open>net.ParseCIDR\<close> (or its error),
  \<open>parseIP\<close> tells whether \<^verbatim>\<open>net.ParseIP\<close> returns a non-nil address.
\<close>

record NetLib =
  parseCIDR :: "string \<Rightarrow> error + IPNet"
  parseIP :: "string \<Rightarrow> bool"

definition parseAndValidateCIDR :: "NetLib \<Rightarrow> string \<Rightarrow> string \<Rightarrow> error + IPNet" where
  "parseAndValidateCIDR nl cidrStr fieldName =
     (case parseCIDR nl cidrStr of
        Inl err \<Rightarrow>
          Inl (Error (''invalid '' @ fieldName @ '': '' @ cidrStr @ '' (error: '' @ errMsg err @ '')''))
      | Inr cidr \<Rightarrow> Inr cidr)"

definition validateNodeIP :: "NetLib \<Rightarrow> Node \<Rightarrow> error option" where
  "validateNodeIP nl node =
     (if IP node = [] then Some (Error ''ip address is empty'')
      else if \<not> parseIP nl (IP node) then Some (Error (''invalid ip address: '' @ IP node))
      else None)"

text \<open>The two loops over the nodes at the end of \<^verbatim>\<open>Validate\<close>; \<open>kind\<close> is "server" or "agent".\<close>

fun validateNodes :: "NetLib \<Rightarrow> string \<Rightarrow> Node list \<Rightarrow> error option" where
  "validateNodes nl kind [] = None"
| "validateNodes nl kind (node # rest) =
     (case validateNodeIP nl node of
        Some err \<Rightarrow> Some (Error (kind @ '' '' @ NodeName node @ '': '' @ errMsg err))
      | None \<Rightarrow> validateNodes nl kind rest)"

definition Validate :: "NetLib \<Rightarrow> Config \<Rightarrow> error option" where
  "Validate nl c =
     (case parseAndValidateCIDR nl (ClusterCidr (cluster c)) ''cluster-cidr'' of
        Inl err \<Rightarrow> Some err
      | Inr clusterCIDR \<Rightarrow>
     (case parseAndValidateCIDR nl (ServiceCidr (cluster c)) ''service-cidr'' of
        Inl err \<Rightarrow> Some err
      | Inr serviceCIDR \<Rightarrow>
     (if cidrsEqual clusterCIDR serviceCIDR then
        Some (Error (''cluster-cidr and service-cidr cannot be the same: '' @ ClusterCidr (cluster c)))
      else if cidrsOverlap clusterCIDR serviceCIDR then
        Some (Error (''cluster-cidr ('' @ ClusterCidr (cluster c) @ '') and service-cidr (''
                       @ ServiceCidr (cluster c) @ '') overlap''))
      else
     (case validateNodes nl ''server'' (servers c) of
        Some err \<Rightarrow> Some err
      | None \<Rightarrow> validateNodes nl ''agent'' (agents c)))))"

text \<open>The addresses of a range: those \<^verbatim>\<open>IPNet.Contains\<close> accepts.\<close>

definition cidrAddrs :: "IPNet \<Rightarrow> byte list set" where
  "cidrAddrs n = {ip. Contains n ip}"

text \<open>
  What \<^verbatim>\<open>net.ParseCIDR\<close> returns: a 4-byte address with a 4-byte mask, or a 16-byte
  address with a 16-byte mask.
\<close>

definition wellFormedNet :: "IPNet \<Rightarrow> bool" where
  "wellFormedNet n =
     ((length (netIP n) = 4 \<and> length (netMask n) = 4) \<or>
      (length (netIP n) = 16 \<and> length (netMask n) = 16))"

section \<open>Kubeconfig patching (package install)\<close>

text \<open>
  A YAML value as \<^verbatim>\<open>yaml.Unmarshal\<close> stores it in an \<^verbatim>\<open>interface{}\<close>: a scalar, a
  \<^verbatim>\<open>[]interface{}\<close>, or a mapping. A mapping whose keys are all strings is a
  \<^verbatim>\<open>map[string]interface{}\<close> (\<open>YMap\<close>, an association list keyed by strings); a mapping
  with a key that is not a string is a \<^verbatim>\<open>map[interface{}]interface{}\<close> (\<open>YMapAny\<close>), on
  which the assertion \<^verbatim>\<open>.(map[string]interface{})\<close> fails.
\<close>

datatype yaml =
    YNull
  | YBool bool
  | YInt int
  | YStr string
  | YSeq "yaml list"
  | YMap "(string \<times> yaml) list"
  | YMapAny "(yaml \<times> yaml) list"

text \<open>\<^verbatim>\<open>m[k] = v\<close> on a map.\<close>

fun mapSet :: "string \<Rightarrow> yaml \<Rightarrow> (string \<times> yaml) list \<Rightarrow> (string \<times> yaml) list" where
  "mapSet k v [] = [(k, v)]"
| "mapSet k v (p # ps) = (if fst p = k then (k, v) # ps else p # mapSet k v ps)"

record YamlLib =
  yamlUnmarshal :: "string \<Rightarrow> error + (string \<times> yaml) list"
  yamlMarshal :: "(string \<times> yaml) list \<Rightarrow> error + string"

text \<open>
  Go's \<^verbatim>\<open>strings.ReplaceAll(s, old, new)\<close> for a non-empty \<open>old\<close>: non-overlapping
  occurrences are replaced from left to right. The source calls it with the constant
  \<^verbatim>\<open>"127.0.0.1"\<close> only; with an empty \<open>old\<close> the model returns \<open>s\<close>.
\<close>

function replaceAll :: "string \<Rightarrow> string \<Rightarrow> string \<Rightarrow> string" where
  "replaceAll [] old new = []"
| "replaceAll (c # cs) old new =
     (if old \<noteq> [] \<and> prefix old (c # cs)
      then new @ replaceAll (drop (length old) (c # cs)) old new
      else c # replaceAll cs old new)"
  by pat_completeness auto
termination
  by (relation "measure (\<lambda>(s, old, new). length s)") auto

text \<open>
  The navigation to \<^verbatim>\<open>clusters[0].cluster.server\<close> with its four checked type
  assertions: the first cluster entry, its \<^verbatim>\<open>cluster\<close> map, and the server string.
\<close>

definition navigateServer ::
  "(string \<times> yaml) list \<Rightarrow>
     (yaml list \<times> (string \<times> yaml) list \<times> (string \<times> yaml) list \<times> string) option" where
  "navigateServer config =
     (case map_of config ''clusters'' of
        Some (YSeq (YMap firstCluster # rest)) \<Rightarrow>
          (case map_of firstCluster ''cluster'' of
             Some (YMap clusterData) \<Rightarrow>
               (case map_of clusterData ''server'' of
                  Some (YStr serverURL) \<Rightarrow> Some (rest, firstCluster, clusterData, serverURL)
                | _ \<Rightarrow> None)
           | _ \<Rightarrow> None)
      | _ \<Rightarrow> None)"

text \<open>
  The assignment \<^verbatim>\<open>clusterData["server"] = newURL\<close> changes the map that
  \<^verbatim>\<open>config\<close> reaches through \<^verbatim>\<open>clusters[0].cluster\<close>; the model rebuilds the path.
\<close>

definition setServer ::
  "(string \<times> yaml) list \<Rightarrow> yaml list \<Rightarrow> (string \<times> yaml) list \<Rightarrow> (string \<times> yaml) list
     \<Rightarrow> string \<Rightarrow> (string \<times> yaml) list" where
  "setServer config rest firstCluster clusterData newURL =
     mapSet ''clusters''
       (YSeq (YMap (mapSet ''cluster'' (YMap (mapSet ''server'' (YStr newURL) clusterData))
                      firstCluster) # rest))
       config"

text \<open>The result triple \<^verbatim>\<open>([]byte, bool, error)\<close>; a nil slice is the empty string.\<close>

definition replaceKubeconfigServer ::
  "YamlLib \<Rightarrow> string \<Rightarrow> string \<Rightarrow> string \<times> bool \<times> error option" where
  "replaceKubeconfigServer yl data serverIP =
     (case yamlUnmarshal yl data of
        Inl err \<Rightarrow> ([], False, Some err)
      | Inr config \<Rightarrow>
          (let (config', replaced) =
                 (case navigateServer config of
                    Some (rest, firstCluster, clusterData, serverURL) \<Rightarrow>
                      (let newURL = replaceAll serverURL ''127.0.0.1'' serverIP
                       in if newURL \<noteq> serverURL
                          then (setServer config rest firstCluster clusterData newURL, True)
                          else (config, False))
                  | None \<Rightarrow> (config, False))
           in case yamlMarshal yl config' of
                Inl err \<Rightarrow> ([], replaced, Some err)
              | Inr modified \<Rightarrow> (modified, replaced, None)))"

section \<open>The environment of an installation run\<close>

text \<open>
  An SSH client is identified by the host and port it was opened for. Every interaction
  with the outside (remote host, local file system, network, clock) is an event; the
  state of a run is the list of events so far together with the asset manager, which the
  installer holds by pointer. Log output is not modelled.
\<close>

type_synonym Client = "string \<times> int"

datatype event =
    EvConnect string int string string string
  | EvClose Client
  | EvRun Client string
  | EvUpload Client string string
  | EvUploadBytes Client string string
  | EvDownloadBytes Client string
  | EvStat string
  | EvCreate string
  | EvHttpGet string
  | EvCopy string
  | EvWriteFile string string nat
  | EvSleep nat

datatype StatResult = StatOk | StatNotExist | StatErr error

record AssetManager =
  tempDir :: string
  downloadedFiles :: "string list"

record St =
  trace :: "event list"
  am :: AssetManager

text \<open>
  The outside world: what each operation answers after a given history. The first five
  fields are the pure library functions the installer calls (\<^verbatim>\<open>filepath.Join\<close>, the path
  of \<^verbatim>\<open>url.Parse\<close>, parsing and executing the uninstall template, the YAML library).
\<close>

record World =
  pathJoin :: "string list \<Rightarrow> string"
  urlPath :: "string \<Rightarrow> string option"
  tmplParse :: "error option"
  tmplExecute :: "string \<Rightarrow> bool \<Rightarrow> error + string"
  yamlLib :: YamlLib
  sshConnect :: "event list \<Rightarrow> string \<Rightarrow> int \<Rightarrow> string \<Rightarrow> string \<Rightarrow> string \<Rightarrow> error option"
  sshRun :: "event list \<Rightarrow> Client \<Rightarrow> string \<Rightarrow> string \<times> string \<times> error option"
  sshUpload :: "event list \<Rightarrow> Client \<Rightarrow> string \<Rightarrow> string \<Rightarrow> error option"
  sshUploadBytes :: "event list \<Rightarrow> Client \<Rightarrow> string \<Rightarrow> string \<Rightarrow> error option"
  sshDownloadBytes :: "event list \<Rightarrow> Client \<Rightarrow> string \<Rightarrow> error + string"
  osStat :: "event list \<Rightarrow> string \<Rightarrow> StatResult"
  osCreate :: "event list \<Rightarrow> string \<Rightarrow> error option"
  httpGet :: "event list \<Rightarrow> string \<Rightarrow> error + (int \<times> string)"
  ioCopy :: "event list \<Rightarrow> string \<Rightarrow> error option"
  osWriteFile :: "event list \<Rightarrow> string \<Rightarrow> string \<Rightarrow> nat \<Rightarrow> error option"

definition emit :: "event \<Rightarrow> St \<Rightarrow> St" where
  "emit e st = st\<lparr>trace := trace st @ [e]\<rparr>"

text \<open>Sequencing of \<^verbatim>\<open>if err := f(); err != nil { return err }\<close> with what follows.\<close>

definition andThen ::
  "(St \<Rightarrow> error option \<times> St) \<Rightarrow> (St \<Rightarrow> error option \<times> St) \<Rightarrow> St \<Rightarrow> error option \<times> St" where
  "andThen f g st = (case f st of (Some err, st') \<Rightarrow> (Some err, st') | (None, st') \<Rightarrow> g st')"

subsection \<open>Package sshclient\<close>

text \<open>
  \<^verbatim>\<open>sshclient.New\<close>: the user name defaults to root; reading the key, dialling and
  opening the file-transfer channel are one event, which succeeds or fails as a whole.
\<close>

definition sshclientNew ::
  "World \<Rightarrow> string \<Rightarrow> int \<Rightarrow> string \<Rightarrow> string \<Rightarrow> string \<Rightarrow> St \<Rightarrow> (error + Client) \<times> St" where
  "sshclientNew w host port username password keyPath st =
     (let username = (if username = [] then ''root'' else username);
          st' = emit (EvConnect host port username password keyPath) st
      in case sshConnect w (trace st) host port username password keyPath of
           Some err \<Rightarrow> (Inl err, st')
         | None \<Rightarrow> (Inr (host, port), st'))"

definition clientClose :: "Client \<Rightarrow> St \<Rightarrow> St" where
  "clientClose c st = emit (EvClose c) st"

definition clientRun :: "World \<Rightarrow> Client \<Rightarrow> string \<Rightarrow> St \<Rightarrow> (string \<times> string \<times> error option) \<times> St" where
  "clientRun w c cmd st = (sshRun w (trace st) c cmd, emit (EvRun c cmd) st)"

definition clientUpload :: "World \<Rightarrow> Client \<Rightarrow> string \<Rightarrow> string \<Rightarrow> St \<Rightarrow> error option \<times> St" where
  "clientUpload w c localPath remotePath st =
     (sshUpload w (trace st) c localPath remotePath, emit (EvUpload c localPath remotePath) st)"

definition clientUploadBytes :: "World \<Rightarrow> Client \<Rightarrow> string \<Rightarrow> string \<Rightarrow> St \<Rightarrow> error option \<times> St" where
  "clientUploadBytes w c data remotePath st =
     (sshUploadBytes w (trace st) c data remotePath, emit (EvUploadBytes c data remotePath) st)"

definition clientDownloadBytes :: "World \<Rightarrow> Client \<Rightarrow> string \<Rightarrow> St \<Rightarrow> (error + string) \<times> St" where
  "clientDownloadBytes w c remotePath st =
     (sshDownloadBytes w (trace st) c remotePath, emit (EvDownloadBytes c remotePath) st)"

subsection \<open>Asset resolution (assets.go)\<close>

definition isURL :: "string \<Rightarrow> bool" where
  "isURL path = (prefix ''http://'' path \<or> prefix ''https://'' path)"

text \<open>\<^verbatim>\<open>strings.Split(s, "/")\<close>: never empty.\<close>

fun splitSlash :: "string \<Rightarrow> string list" where
  "splitSlash [] = [[]]"
| "splitSlash (x # xs) =
     (if x = CHR ''/'' then [] # splitSlash xs
      else (case splitSlash xs of p # ps \<Rightarrow> (x # p) # ps | [] \<Rightarrow> [[x]]))"

definition getFilenameFromURL :: "World \<Rightarrow> string \<Rightarrow> string" where
  "getFilenameFromURL w source =
     (case urlPath w source of
        None \<Rightarrow> []
      | Some p \<Rightarrow>
          (let parts = splitSlash p
           in if length parts = 0 then [] else last parts))"

definition download :: "World \<Rightarrow> string \<Rightarrow> St \<Rightarrow> (error + string) \<times> St" where
  "download w urlStr st =
     (let filename = getFilenameFromURL w urlStr
      in if filename = [] then
           (Inl (Error (''cannot determine filename from URL: '' @ urlStr)), st)
         else
     (let localPath = pathJoin w [tempDir (am st), filename];
          st1 = emit (EvCreate localPath) st
      in case osCreate w (trace st) localPath of
           Some err \<Rightarrow> (Inl (Error (''failed to create temp file: '' @ errMsg err)), st1)
         | None \<Rightarrow>
     (let st2 = emit (EvHttpGet urlStr) st1
      in case httpGet w (trace st1) urlStr of
           Inl err \<Rightarrow> (Inl (Error (''download request failed: '' @ errMsg err)), st2)
         | Inr (statusCode, status) \<Rightarrow>
             if statusCode \<noteq> 200 then
               (Inl (Error (''download failed with status: '' @ status)), st2)
             else
     (let st3 = emit (EvCopy localPath) st2
      in case ioCopy w (trace st2) localPath of
           Some err \<Rightarrow> (Inl (Error (''download failed: '' @ errMsg err)), st3)
         | None \<Rightarrow> (Inr localPath, st3)))))"

definition k3sHint :: string where
  "k3sHint =
     [CHR 0x0A, CHR 0x0A] @ ''Please download k3s binary:'' @ [CHR 0x0A] @
     ''  wget https://github.com/k3s-io/k3s/releases/download/v1.28.5+k3s1/k3s'' @ [CHR 0x0A] @
     ''  chmod +x k3s'' @ [CHR 0x0A] @
     ''Or configure a URL in your init.yaml under assets.k3s-binary''"

definition airgapHint :: string where
  "airgapHint =
     [CHR 0x0A, CHR 0x0A] @ ''Please download k3s airgap images:'' @ [CHR 0x0A] @
     ''  wget https://github.com/k3s-io/k3s/releases/download/v1.28.5+k3s1/k3s-airgap-images-amd64.tar.gz''
       @ [CHR 0x0A] @
     ''Or configure a URL in your init.yaml under assets.k3s-airgap-tarball''"

definition ResolveAsset :: "World \<Rightarrow> string \<Rightarrow> string \<Rightarrow> St \<Rightarrow> (error + string) \<times> St" where
  "ResolveAsset w source description st =
     (if isURL source then
        (case download w source st of
           (Inl err, st') \<Rightarrow>
             (Inl (Error (''failed to download '' @ description @ '': '' @ errMsg err)), st')
         | (Inr localPath, st') \<Rightarrow>
             (Inr localPath,
              st'\<lparr>am := (am st')\<lparr>downloadedFiles := downloadedFiles (am st') @ [localPath]\<rparr>\<rparr>))
      else
        (let st' = emit (EvStat source) st
         in case osStat w (trace st) source of
              StatNotExist \<Rightarrow>
                (let hint =
                       (if source = ''k3s'' \<or> source = ''./k3s'' then k3sHint
                        else if source = ''k3s-airgap-images-amd64.tar.gz''
                                \<or> source = ''./k3s-airgap-images-amd64.tar.gz'' then airgapHint
                        else [])
                 in (Inl (Error (description @ '' file not found: '' @ source @ hint)), st'))
            | StatErr err \<Rightarrow>
                (Inl (Error (''failed to access '' @ description @ '': '' @ errMsg err)), st')
            | StatOk \<Rightarrow> (Inr source, st')))"

subsection \<open>The per-node sequences (package install)\<close>

definition runCmd :: "World \<Rightarrow> Client \<Rightarrow> string \<Rightarrow> St \<Rightarrow> error option \<times> St" where
  "runCmd w c cmd st =
     (case clientRun w c cmd st of
        ((stdout, stderr, Some err), st') \<Rightarrow>
          (Some (Error (''cmd failed: '' @ cmd @ [CHR 0x0A] @ ''stdout:'' @ [CHR 0x0A] @ stdout
                          @ [CHR 0x0A] @ ''stderr:'' @ [CHR 0x0A] @ stderr
                          @ [CHR 0x0A] @ ''err: '' @ errMsg err)), st')
      | ((stdout, stderr, None), st') \<Rightarrow> (None, st'))"

definition prepareNode :: "World \<Rightarrow> Installer \<Rightarrow> Client \<Rightarrow> St \<Rightarrow> error option \<times> St" where
  "prepareNode w i c =
     andThen (runCmd w c ''mkdir -p /usr/local/bin'')
    (andThen (runCmd w c (''mkdir -p '' @ pathJoin w [DataDir (cluster (cfg i)), ''agent'', ''images'']))
             (runCmd w c ''mkdir -p /etc/rancher/k3s''))"

text \<open>The optional image archive: a resolution failure is only logged.\<close>

definition uploadTarball :: "World \<Rightarrow> Installer \<Rightarrow> Client \<Rightarrow> St \<Rightarrow> error option \<times> St" where
  "uploadTarball w i c st =
     (if K3sAirgapTarball (assets (cfg i)) \<noteq> [] then
        (case ResolveAsset w (K3sAirgapTarball (assets (cfg i))) ''airgap images'' st of
           (Inl err, st') \<Rightarrow> (None, st')
         | (Inr imgPath, st') \<Rightarrow>
             (let tarballPath = pathJoin w [DataDir (cluster (cfg i)), ''agent'', ''images'',
                                            ''k3s-airgap-images-amd64.tar.gz'']
              in clientUpload w c imgPath tarballPath (emit (EvStat imgPath) st')))
      else (None, st))"

definition uploadRegistries :: "World \<Rightarrow> Installer \<Rightarrow> Client \<Rightarrow> St \<Rightarrow> error option \<times> St" where
  "uploadRegistries w i c st =
     (if Registries (cluster (cfg i)) \<noteq> [] then
        clientUploadBytes w c (Registries (cluster (cfg i))) ''/etc/rancher/k3s/registries.yaml'' st
      else (None, st))"

definition uploadAssets :: "World \<Rightarrow> Installer \<Rightarrow> Client \<Rightarrow> St \<Rightarrow> error option \<times> St" where
  "uploadAssets w i c st =
     (case ResolveAsset w (K3sBinary (assets (cfg i))) ''k3s binary'' st of
        (Inl err, st') \<Rightarrow> (Some err, st')
      | (Inr k3sPath, st') \<Rightarrow>
          andThen (clientUpload w c k3sPath ''/usr/local/bin/k3s'')
         (andThen (runCmd w c ''chmod +x /usr/local/bin/k3s'')
         (andThen (uploadTarball w i c)
                  (uploadRegistries w i c)))
            (emit (EvStat k3sPath) st'))"

text \<open>
  \<^verbatim>\<open>uninstallScriptContent\<close> (\<open>isAgent = False\<close>) and \<^verbatim>\<open>agentUninstallScriptContent\<close>
  (\<open>isAgent = True\<close>), which differ in that field only.
\<close>

definition uninstallScript :: "World \<Rightarrow> Installer \<Rightarrow> bool \<Rightarrow> error + string" where
  "uninstallScript w i isAgent =
     (let dataDir = (if DataDir (cluster (cfg i)) = [] then ''/var/lib/rancher/k3s''
                     else DataDir (cluster (cfg i)))
      in case tmplParse w of
           Some err \<Rightarrow> Inl (Error (''failed to parse uninstall template: '' @ errMsg err))
         | None \<Rightarrow>
             (case tmplExecute w dataDir isAgent of
                Inl err \<Rightarrow> Inl (Error (''failed to execute uninstall template: '' @ errMsg err))
              | Inr text \<Rightarrow> Inr text))"

definition uninstallScriptContent :: "World \<Rightarrow> Installer \<Rightarrow> error + string" where
  "uninstallScriptContent w i = uninstallScript w i False"

definition agentUninstallScriptContent :: "World \<Rightarrow> Installer \<Rightarrow> error + string" where
  "agentUninstallScriptContent w i = uninstallScript w i True"

definition sleepSeconds :: "nat \<Rightarrow> St \<Rightarrow> error option \<times> St" where
  "sleepSeconds n st = (None, emit (EvSleep n) st)"

text \<open>The body of \<^verbatim>\<open>installServer\<close> between opening the client and its deferred close.\<close>

definition installServerBody ::
  "World \<Rightarrow> Installer \<Rightarrow> Client \<Rightarrow> Node \<Rightarrow> string \<Rightarrow> bool \<Rightarrow> St \<Rightarrow> error option \<times> St" where
  "installServerBody w i c node primaryIP isPrimary =
     andThen (prepareNode w i c)
    (andThen (uploadAssets w i c)
      (\<lambda>st. case uninstallScriptContent w i of
               Inl err \<Rightarrow> (Some err, st)
             | Inr uninstallScriptText \<Rightarrow>
                 (andThen (clientUploadBytes w c uninstallScriptText ''/usr/local/bin/k3s-uninstall.sh'')
                 (andThen (runCmd w c ''chmod +x /usr/local/bin/k3s-uninstall.sh'')
                 (andThen (clientUploadBytes w c (serverServiceContent i node primaryIP isPrimary)
                             ''/etc/systemd/system/k3s.service'')
                 (andThen (runCmd w c ''systemctl daemon-reload'')
                 (andThen (runCmd w c ''systemctl enable k3s'')
                 (andThen (runCmd w c ''systemctl restart k3s'')
                 (andThen (sleepSeconds 2)
                          (runCmd w c ''cp /usr/local/bin/k3s /usr/local/bin/kubectl -f''))))))))
                   st))"

definition installServer ::
  "World \<Rightarrow> Installer \<Rightarrow> Node \<Rightarrow> string \<Rightarrow> bool \<Rightarrow> St \<Rightarrow> error option \<times> St" where
  "installServer w i node primaryIP isPrimary st =
     (let user = (if User node = [] then ''root'' else User node)
      in case sshclientNew w (IP node) (Port node) user (Password node) (KeyPath node) st of
           (Inl err, st') \<Rightarrow> (Some err, st')
         | (Inr c, st') \<Rightarrow>
             (case installServerBody w i c node primaryIP isPrimary st' of
                (r, st'') \<Rightarrow> (r, clientClose c st'')))"

definition installAgentBody ::
  "World \<Rightarrow> Installer \<Rightarrow> Client \<Rightarrow> Node \<Rightarrow> string \<Rightarrow> St \<Rightarrow> error option \<times> St" where
  "installAgentBody w i c node primaryIP =
     andThen (prepareNode w i c)
    (andThen (uploadAssets w i c)
      (\<lambda>st. case agentUninstallScriptContent w i of
               Inl err \<Rightarrow> (Some err, st)
             | Inr agentUninstallScript \<Rightarrow>
                 (andThen (clientUploadBytes w c agentUninstallScript ''/usr/local/bin/k3s-uninstall.sh'')
                 (andThen (runCmd w c ''chmod +x /usr/local/bin/k3s-uninstall.sh'')
                 (andThen (clientUploadBytes w c (agentServiceContent i node primaryIP)
                             ''/etc/systemd/system/k3s-agent.service'')
                 (andThen (runCmd w c ''systemctl daemon-reload'')
                 (andThen (runCmd w c ''systemctl enable k3s-agent'')
                 (andThen (runCmd w c ''systemctl restart k3s-agent'')
                          (sleepSeconds 2)))))))
                   st))"

definition installAgent ::
  "World \<Rightarrow> Installer \<Rightarrow> Node \<Rightarrow> string \<Rightarrow> St \<Rightarrow> error option \<times> St" where
  "installAgent w i node primaryIP st =
     (let user = (if User node = [] then ''root'' else User node)
      in case sshclientNew w (IP node) (Port node) user (Password node) (KeyPath node) st of
           (Inl err, st') \<Rightarrow> (Some err, st')
         | (Inr c, st') \<Rightarrow>
             (case installAgentBody w i c node primaryIP st' of
                (r, st'') \<Rightarrow> (r, clientClose c st'')))"

subsection \<open>After the nodes: credential file and cluster listing\<close>

text \<open>
  What \<^verbatim>\<open>downloadKubeconfig\<close> does once it holds the downloaded bytes. The file mode
  \<^verbatim>\<open>0600\<close> (octal) is \<open>0x180\<close>.
\<close>

definition saveKubeconfig :: "World \<Rightarrow> Node \<Rightarrow> string \<Rightarrow> St \<Rightarrow> error option \<times> St" where
  "saveKubeconfig w master content st =
     (case replaceKubeconfigServer (yamlLib w) content (IP master) of
        (modified, replaced, Some err) \<Rightarrow>
          (Some (Error (''failed to modify kubeconfig: '' @ errMsg err)), st)
      | (modified, replaced, None) \<Rightarrow>
          (case osWriteFile w (trace st) ''kubeconfig'' modified 0x180 of
             Some err \<Rightarrow> (Some (Error (''failed to write kubeconfig: '' @ errMsg err)),
                            emit (EvWriteFile ''kubeconfig'' modified 0x180) st)
           | None \<Rightarrow> (None, emit (EvWriteFile ''kubeconfig'' modified 0x180) st)))"

definition downloadKubeconfigBody :: "World \<Rightarrow> Installer \<Rightarrow> Client \<Rightarrow> Node \<Rightarrow> St \<Rightarrow> error option \<times> St" where
  "downloadKubeconfigBody w i c master st =
     (let remoteKubeconfig = pathJoin w [DataDir (cluster (cfg i)), ''server'', ''cred'', ''k3s.yaml'']
      in case clientDownloadBytes w c remoteKubeconfig st of
           (Inr content, st') \<Rightarrow> saveKubeconfig w master content st'
         | (Inl err, st') \<Rightarrow>
             (case clientDownloadBytes w c ''/etc/rancher/k3s/k3s.yaml'' st' of
                (Inl err', st'') \<Rightarrow>
                  (Some (Error (''failed to download kubeconfig: '' @ errMsg err')), st'')
              | (Inr content, st'') \<Rightarrow> saveKubeconfig w master content st''))"

definition downloadKubeconfig :: "World \<Rightarrow> Installer \<Rightarrow> Node \<Rightarrow> St \<Rightarrow> error option \<times> St" where
  "downloadKubeconfig w i master st =
     (let user = (if User master = [] then ''root'' else User master)
      in case sshclientNew w (IP master) (Port master) user (Password master) (KeyPath master) st of
           (Inl err, st') \<Rightarrow> (Some err, st')
         | (Inr c, st') \<Rightarrow>
             (case downloadKubeconfigBody w i c master st' of
                (r, st'') \<Rightarrow> (r, clientClose c st'')))"

text \<open>\<^verbatim>\<open>showClusterInfo\<close> returns nothing; its failures are logged.\<close>

definition showClusterInfo :: "World \<Rightarrow> Installer \<Rightarrow> Node \<Rightarrow> St \<Rightarrow> St" where
  "showClusterInfo w i master st =
     (let user = (if User master = [] then ''root'' else User master)
      in case sshclientNew w (IP master) (Port master) user (Password master) (KeyPath master) st of
           (Inl err, st') \<Rightarrow> st'
         | (Inr c, st') \<Rightarrow>
             (case runCmd w c ''kubectl get nodes'' st' of
                (Some err, st'') \<Rightarrow> clientClose c st''
              | (None, st'') \<Rightarrow> clientClose c (snd (clientRun w c ''kubectl get nodes'' st''))))"

subsection \<open>Apply\<close>

text \<open>The loop over \<^verbatim>\<open>i.cfg.Servers\<close>, from index \<open>idx\<close> on.\<close>

fun installServers ::
  "World \<Rightarrow> Installer \<Rightarrow> string \<Rightarrow> nat \<Rightarrow> Node list \<Rightarrow> St \<Rightarrow> error option \<times> St" where
  "installServers w i primaryIP idx [] st = (None, st)"
| "installServers w i primaryIP idx (srv # rest) st =
     (case installServer w i srv primaryIP (idx = 0) st of
        (Some err, st') \<Rightarrow> (Some err, st')
      | (None, st') \<Rightarrow> installServers w i primaryIP (Suc idx) rest st')"

text \<open>The loop over \<^verbatim>\<open>i.cfg.Agents\<close>.\<close>

fun installAgents ::
  "World \<Rightarrow> Installer \<Rightarrow> string \<Rightarrow> Node list \<Rightarrow> St \<Rightarrow> error option \<times> St" where
  "installAgents w i primaryIP [] st = (None, st)"
| "installAgents w i primaryIP (ag # rest) st =
     (case installAgent w i ag primaryIP st of
        (Some err, st') \<Rightarrow> (Some err, st')
      | (None, st') \<Rightarrow> installAgents w i primaryIP rest st')"

definition Apply :: "World \<Rightarrow> Installer \<Rightarrow> St \<Rightarrow> error option \<times> St" where
  "Apply w i st =
     (case servers (cfg i) of
        [] \<Rightarrow> (Some (Error ''no servers defined''), st)
      | primary # others \<Rightarrow>
          (case installServers w i (IP primary) 0 (servers (cfg i)) st of
             (Some err, st') \<Rightarrow> (Some err, st')
           | (None, st') \<Rightarrow>
               (case installAgents w i (IP primary) (agents (cfg i)) st' of
                  (Some err, st'') \<Rightarrow> (Some err, st'')
                | (None, st'') \<Rightarrow>
                    (None, showClusterInfo w i primary (snd (downloadKubeconfig w i primary st''))))))"

section \<open>Vocabulary of the specification\<close>

text \<open>A text contains another as a contiguous piece (Go's \<^verbatim>\<open>strings.Contains\<close>).\<close>

definition containsStr :: "string \<Rightarrow> string \<Rightarrow> bool" where
  "containsStr s sub = sublist sub s"

text \<open>
  The flag groups as the specification words them: a flag with its value, left out when the
  value is empty; a repeated flag, once for every non-empty value.
\<close>

definition flagOpt :: "string \<Rightarrow> string \<Rightarrow> string list" where
  "flagOpt flag v = (if v = [] then [] else [flag, v])"

definition flagEach :: "string \<Rightarrow> string list \<Rightarrow> string list" where
  "flagEach flag vs = concat (map (flagOpt flag) vs)"

definition roleFlags :: "string \<Rightarrow> bool \<Rightarrow> string list" where
  "roleFlags primaryIP isPrimary =
     (if isPrimary then [''server'', ''--cluster-init'']
      else [''server'', ''--server'', ''https://'' @ primaryIP @ '':6443''])"

definition serverFlagGroups :: "Installer \<Rightarrow> Node \<Rightarrow> string list" where
  "serverFlagGroups i node =
       flagOpt ''--flannel-backend'' (FlannelBackend (cluster (cfg i)))
     @ flagOpt ''--cluster-cidr'' (ClusterCidr (cluster (cfg i)))
     @ flagOpt ''--service-cidr'' (ServiceCidr (cluster (cfg i)))
     @ flagOpt ''--data-dir'' (DataDir (cluster (cfg i)))
     @ flagOpt ''--node-name'' (NodeName node)
     @ (if EmbeddedRegistry (cluster (cfg i)) then [''--embedded-registry''] else [])
     @ flagEach ''--tls-san'' (TLSSAN (cluster (cfg i)))
     @ flagEach ''--disable'' (Disable (cluster (cfg i)))
     @ flagEach ''--node-label'' (Labels node)"

definition agentFlagGroups :: "Installer \<Rightarrow> Node \<Rightarrow> string list" where
  "agentFlagGroups i node =
       flagOpt ''--data-dir'' (DataDir (cluster (cfg i)))
     @ flagOpt ''--node-name'' (NodeName node)
     @ flagEach ''--node-label'' (Labels node)"

text \<open>
  The configured strings that reach a server unit or an agent unit, and the flag names the
  generator writes itself.
\<close>

definition serverValues :: "Installer \<Rightarrow> Node \<Rightarrow> string list" where
  "serverValues i node =
     [FlannelBackend (cluster (cfg i)), ClusterCidr (cluster (cfg i)), ServiceCidr (cluster (cfg i)),
      DataDir (cluster (cfg i)), NodeName node]
     @ TLSSAN (cluster (cfg i)) @ Disable (cluster (cfg i)) @ Labels node @ [Token (cluster (cfg i))]"

definition agentValues :: "Installer \<Rightarrow> Node \<Rightarrow> string list" where
  "agentValues i node =
     [DataDir (cluster (cfg i)), NodeName node] @ Labels node @ [Token (cluster (cfg i))]"

definition fixedFlags :: "string list" where
  "fixedFlags = [''--flannel-backend'', ''--cluster-cidr'', ''--service-cidr'', ''--data-dir'',
     ''--node-name'', ''--embedded-registry'', ''--tls-san'', ''--disable'', ''--node-label'', ''--token'']"


section \<open>Example inputs\<close>

definition exCluster :: Cluster where
  "exCluster = \<lparr>FlannelBackend = ''vxlan'', ClusterCidr = ''10.42.0.0/16'',
     ServiceCidr = ''10.43.0.0/16'', Token = ''k3air-token'', TLSSAN = [],
     Disable = [''traefik''], DataDir = ''/data/k3s'', EmbeddedRegistry = True, Registries = []\<rparr>"

definition exNode :: "string \<Rightarrow> string \<Rightarrow> Node" where
  "exNode name ip = \<lparr>NodeName = name, IP = ip, Port = 22, User = [], Password = ''secret'',
     KeyPath = [], Labels = []\<rparr>"

definition exConfig :: Config where
  "exConfig = \<lparr>cluster = exCluster,
     assets = \<lparr>K3sBinary = ''k3s'', K3sAirgapTarball = []\<rparr>,
     servers = [exNode ''s1'' ''10.0.0.1'', exNode ''s2'' ''10.0.0.2'', exNode ''s3'' ''10.0.0.3''],
     agents = [exNode ''a1'' ''10.0.0.9'']\<rparr>"

definition exInstaller :: Installer where
  "exInstaller = \<lparr>cfg = exConfig, assetsDir = ''assets'', templateAssetsDir = ''assets'',
     verbose = False\<rparr>"

text \<open>The same cluster settings in an installer that differs in everything else.\<close>

definition exInstaller2 :: Installer where
  "exInstaller2 = \<lparr>cfg = exConfig\<lparr>servers := [], agents := []\<rparr>, assetsDir = ''elsewhere'',
     templateAssetsDir = ''other'', verbose = True\<rparr>"

text \<open>A token that carries a further flag, and an empty token.\<close>

definition injInstaller :: "string \<Rightarrow> Installer" where
  "injInstaller tok = exInstaller\<lparr>cfg := exConfig\<lparr>cluster := exCluster\<lparr>Token := tok\<rparr>\<rparr>\<rparr>"

definition bareInstaller :: Installer where
  "bareInstaller = exInstaller\<lparr>cfg := exConfig\<lparr>cluster :=
     \<lparr>FlannelBackend = [], ClusterCidr = [], ServiceCidr = [], Token = [], TLSSAN = [],
      Disable = [], DataDir = [], EmbeddedRegistry = False, Registries = []\<rparr>\<rparr>\<rparr>"

text \<open>
  A toy YAML library: every input parses to the given document, and printing shows the
  server field only.
\<close>

definition exYamlLib :: "(string \<times> yaml) list \<Rightarrow> YamlLib" where
  "exYamlLib doc =
     \<lparr>yamlUnmarshal = (\<lambda>data. Inr doc),
      yamlMarshal = (\<lambda>config. case navigateServer config of
                                  Some (rest, firstCluster, clusterData, serverURL) \<Rightarrow>
                                    Inr (''server: '' @ serverURL)
                                | None \<Rightarrow> Inr ''{}'')\<rparr>"

definition exKubeconfig :: "string \<Rightarrow> (string \<times> yaml) list" where
  "exKubeconfig url =
     [(''apiVersion'', YStr ''v1''),
      (''clusters'', YSeq [YMap [(''cluster'', YMap [(''server'', YStr url)]),
                                 (''name'', YStr ''default'')]])]"

text \<open>The same document with a further, numeric key in the cluster mapping.\<close>

definition anyKeyKubeconfig :: "string \<Rightarrow> (string \<times> yaml) list" where
  "anyKeyKubeconfig url =
     [(''apiVersion'', YStr ''v1''),
      (''clusters'', YSeq [YMap [(''cluster'', YMapAny [(YStr ''server'', YStr url),
                                                          (YInt 1, YStr ''x'')]),
                                 (''name'', YStr ''default'')]])]"

text \<open>A world in which every operation succeeds, and variants with one failure.\<close>

definition okWorld :: World where
  "okWorld =
     \<lparr>pathJoin = (\<lambda>parts. joinStr parts ''/''),
      urlPath = (\<lambda>s. None),
      tmplParse = None,
      tmplExecute = (\<lambda>dataDir isAgent. Inr (''uninstall '' @ dataDir)),
      yamlLib = exYamlLib (exKubeconfig ''https://127.0.0.1:6443''),
      sshConnect = (\<lambda>t h p u pw k. None),
      sshRun = (\<lambda>t c cmd. ([], [], None)),
      sshUpload = (\<lambda>t c l r. None),
      sshUploadBytes = (\<lambda>t c d r. None),
      sshDownloadBytes = (\<lambda>t c p. Inr ''doc''),
      osStat = (\<lambda>t p. StatOk),
      osCreate = (\<lambda>t p. None),
      httpGet = (\<lambda>t u. Inr (200, ''200 OK'')),
      ioCopy = (\<lambda>t p. None),
      osWriteFile = (\<lambda>t p d m. None)\<rparr>"

definition failWorld :: "string \<Rightarrow> string \<Rightarrow> World" where
  "failWorld h failing =
     okWorld\<lparr>sshRun := (\<lambda>t c cmd. if c = (h, 22) \<and> cmd = failing
                                     then ([], ''boom'', Some (Error ''exit status 1''))
                                     else ([], [], None))\<rparr>"

definition noKubeWorld :: World where
  "noKubeWorld = okWorld\<lparr>sshDownloadBytes := (\<lambda>t c p. Inl (Error ''file does not exist''))\<rparr>"

definition st0 :: St where
  "st0 = \<lparr>trace = [], am = \<lparr>tempDir = ''/tmp/k3air-assets-1'', downloadedFiles = []\<rparr>\<rparr>"

text \<open>
  A toy CIDR parser that knows three ranges and rejects everything else, and configurations
  that differ in the two ranges only.
\<close>

definition exNetLib :: NetLib where
  "exNetLib =
     \<lparr>parseCIDR = (\<lambda>s.
        if s = ''10.42.0.0/16'' then Inr \<lparr>netIP = [10, 42, 0, 0], netMask = [255, 255, 0, 0]\<rparr>
        else if s = ''10.43.0.0/16'' then Inr \<lparr>netIP = [10, 43, 0, 0], netMask = [255, 255, 0, 0]\<rparr>
        else if s = ''10.42.1.0/24'' then Inr \<lparr>netIP = [10, 42, 1, 0], netMask = [255, 255, 255, 0]\<rparr>
        else Inl (Error (''invalid CIDR address: '' @ s))),
      parseIP = (\<lambda>s. s \<in> set [''10.0.0.1'', ''10.0.0.2'', ''10.0.0.3'', ''10.0.0.9''])\<rparr>"

definition cidrConfig :: "string \<Rightarrow> string \<Rightarrow> Config" where
  "cidrConfig pod svc = exConfig\<lparr>cluster := exCluster\<lparr>ClusterCidr := pod, ServiceCidr := svc\<rparr>\<rparr>"

section \<open>Auxiliary facts\<close>

subsection \<open>Joining and flag groups\<close>

lemma rangeAppend_eq: "rangeAppend flag xs args = args @ flagEach flag xs"
  by (induction xs arbitrary: args) (auto simp: flagEach_def flagOpt_def)

lemma joinStr_Cons: "ys \<noteq> [] \<Longrightarrow> joinStr (a # ys) sep = a @ sep @ joinStr ys sep"
  by (cases ys) auto

lemma joinStr_append:
  "xs \<noteq> [] \<Longrightarrow> ys \<noteq> [] \<Longrightarrow> joinStr (xs @ ys) sep = joinStr xs sep @ sep @ joinStr ys sep"
  by (induction xs sep rule: joinStr.induct) (auto simp: joinStr_Cons)

lemma serverServiceArgs_groups:
  "serverServiceArgs i node primaryIP isPrimary = roleFlags primaryIP isPrimary @ serverFlagGroups i node"
  by (simp add: serverServiceArgs_def roleFlags_def serverFlagGroups_def rangeAppend_eq flagOpt_def Let_def)

lemma agentServiceArgs_groups:
  "agentServiceArgs i node primaryIP =
     [''agent'', ''--server'', ''https://'' @ primaryIP @ '':6443''] @ agentFlagGroups i node
       @ [''--token'', Token (cluster (cfg i))]"
  by (simp add: agentServiceArgs_def agentFlagGroups_def rangeAppend_eq flagOpt_def Let_def)

lemma roleFlags_nonempty: "roleFlags primaryIP isPrimary \<noteq> []"
  by (simp add: roleFlags_def)

lemma serverServiceCmd_groups:
  "serverServiceCmd i node primaryIP isPrimary =
     ''/usr/local/bin/k3s '' @
       joinStr (roleFlags primaryIP isPrimary @ serverFlagGroups i node
                  @ [''--token'', Token (cluster (cfg i))]) '' ''"
proof -
  have "joinStr ((roleFlags primaryIP isPrimary @ serverFlagGroups i node)
                  @ [''--token'', Token (cluster (cfg i))]) '' '' =
        joinStr (roleFlags primaryIP isPrimary @ serverFlagGroups i node) '' '' @ '' '' @
        joinStr [''--token'', Token (cluster (cfg i))] '' ''"
    by (rule joinStr_append) (simp_all add: roleFlags_nonempty)
  then show ?thesis
    by (simp add: serverServiceCmd_def serverServiceArgs_groups)
qed

subsection \<open>Occurrences of a word in a joined text\<close>

lemma sublist_sep:
  assumes "c \<notin> set w"
  shows "sublist w (a @ c # b) \<longleftrightarrow> sublist w a \<or> sublist w b"
proof
  assume "sublist w (a @ c # b)"
  then consider "sublist w a" | "sublist w (c # b)"
    | xs1 xs2 where "w = xs1 @ xs2" "suffix xs1 a" "prefix xs2 (c # b)" "xs2 \<noteq> []"
    unfolding sublist_append[of w a "c # b"] by (metis append_Nil2 suffix_imp_sublist)
  then show "sublist w a \<or> sublist w b"
  proof cases
    case 1 then show ?thesis by simp
  next
    case 2
    then have "prefix w (c # b) \<or> sublist w b" by (simp add: sublist_Cons_right)
    moreover have "prefix w (c # b) \<Longrightarrow> w = []"
      using assms by (cases w) auto
    ultimately show ?thesis by auto
  next
    case 3
    then have "c \<in> set xs2" by (cases xs2) auto
    with 3 assms show ?thesis by auto
  qed
next
  assume "sublist w a \<or> sublist w b"
  then show "sublist w (a @ c # b)"
    by (metis sublist_append sublist_Cons_right)
qed

lemma sublist_joinStr:
  assumes "c \<notin> set w" "w \<noteq> []"
  shows "sublist w (joinStr args [c]) \<longleftrightarrow> (\<exists>a\<in>set args. sublist w a)"
  using assms
proof (induction args "[c]" rule: joinStr.induct)
  case 1 then show ?case by simp
next
  case (2 a) then show ?case by simp
next
  case (3 a b rest)
  then show ?case by (simp add: sublist_sep)
qed

lemma mem_flagOpt: "a \<in> set (flagOpt f v) \<Longrightarrow> a = f \<or> a = v"
  by (auto simp: flagOpt_def split: if_splits)

lemma mem_flagEach: "a \<in> set (flagEach f vs) \<Longrightarrow> a = f \<or> a \<in> set vs"
  by (auto simp: flagEach_def dest: mem_flagOpt)

lemma mem_serverFlagGroups:
  assumes "a \<in> set (serverFlagGroups i node @ [''--token'', Token (cluster (cfg i))])"
  shows "a \<in> set fixedFlags \<or> a \<in> set (serverValues i node)"
  using assms unfolding serverFlagGroups_def
  by (auto simp: fixedFlags_def serverValues_def dest!: mem_flagOpt mem_flagEach split: if_splits)

lemma mem_agentFlagGroups:
  assumes "a \<in> set (agentFlagGroups i node @ [''--token'', Token (cluster (cfg i))])"
  shows "a \<in> set fixedFlags \<or> a \<in> set (agentValues i node)"
  using assms unfolding agentFlagGroups_def
  by (auto simp: fixedFlags_def agentValues_def dest!: mem_flagOpt mem_flagEach split: if_splits)

lemma fixedFlags_no_server: "f \<in> set fixedFlags \<Longrightarrow> \<not> sublist ''--server'' f"
  by (auto simp: fixedFlags_def sublist_Cons_right)

lemma fixedFlags_no_init: "f \<in> set fixedFlags \<Longrightarrow> \<not> sublist ''--cluster-init'' f"
  by (auto simp: fixedFlags_def sublist_Cons_right)

lemma unitService_split:
  "unitService name exec =
     (''[Unit]'' @ [CHR 0x0A] @ ''Description'') @ CHR ''='' #
     (name @ CHR 0x0A #
     ((''After'') @ CHR ''='' #
     ((''network.target'' @ [CHR 0x0A] @ ''[Service]'' @ [CHR 0x0A] @ ''Type'') @ CHR ''='' #
     ((''notify'' @ [CHR 0x0A] @ ''ExecStart'') @ CHR ''='' #
     (exec @ CHR 0x0A #
     (''Restart'' @ CHR ''='' #
     (''always'' @ [CHR 0x0A] @ ''LimitNOFILE'') @ CHR ''='' #
     (''1048576'' @ [CHR 0x0A] @ ''[Install]'' @ [CHR 0x0A] @ ''WantedBy'') @ CHR ''='' #
     (''multi-user.target'' @ [CHR 0x0A])))))))"
  by (simp add: unitService_def)

lemma unit_no_server:
  "\<not> sublist ''--server'' name \<Longrightarrow>
   sublist ''--server'' (unitService name exec) \<longleftrightarrow> sublist ''--server'' exec"
proof -
  have n: "CHR ''='' \<notin> set ''--server''" "CHR 0x0A \<notin> set ''--server''" by simp_all
  assume "\<not> sublist ''--server'' name"
  then show ?thesis
    unfolding unitService_split
    apply (simp only: sublist_sep[OF n(1)] sublist_sep[OF n(2)])
    apply (simp add: sublist_Cons_right)
    done
qed

lemma unit_no_init:
  "\<not> sublist ''--cluster-init'' name \<Longrightarrow>
   sublist ''--cluster-init'' (unitService name exec) \<longleftrightarrow> sublist ''--cluster-init'' exec"
proof -
  have n: "CHR ''='' \<notin> set ''--cluster-init''" "CHR 0x0A \<notin> set ''--cluster-init''" by simp_all
  assume "\<not> sublist ''--cluster-init'' name"
  then show ?thesis
    unfolding unitService_split
    apply (simp only: sublist_sep[OF n(1)] sublist_sep[OF n(2)])
    apply (simp add: sublist_Cons_right)
    done
qed

lemma k3s_cmd_sublist:
  assumes "CHR '' '' \<notin> set w" "w \<noteq> []" "\<not> sublist w ''/usr/local/bin/k3s''"
  shows "sublist w (''/usr/local/bin/k3s '' @ joinStr args '' '') \<longleftrightarrow> (\<exists>a\<in>set args. sublist w a)"
proof -
  have "''/usr/local/bin/k3s '' @ joinStr args '' '' =
        ''/usr/local/bin/k3s'' @ CHR '' '' # joinStr args [CHR '' '']" by simp
  then show ?thesis
    using assms by (simp only: sublist_sep[OF assms(1)] sublist_joinStr[OF assms(1,2)]) simp
qed

lemma server_no_join_target:
  assumes "\<forall>v\<in>set (serverValues i node). \<not> sublist ''--server'' v"
  shows "\<not> sublist ''--server'' (serverServiceContent i node primaryIP True)"
proof -
  have "\<not> sublist ''--server'' a"
    if "a \<in> set (roleFlags primaryIP True @ serverFlagGroups i node @ [''--token'', Token (cluster (cfg i))])"
    for a
  proof -
    from that consider "a \<in> set (roleFlags primaryIP True)"
      | "a \<in> set (serverFlagGroups i node @ [''--token'', Token (cluster (cfg i))])"
      by auto
    then show ?thesis
    proof cases
      case 1 then show ?thesis by (auto simp: roleFlags_def sublist_Cons_right)
    next
      case 2
      from mem_serverFlagGroups[OF 2] show ?thesis
        using assms fixedFlags_no_server by blast
    qed
  qed
  then have "\<not> sublist ''--server'' (serverServiceCmd i node primaryIP True)"
    unfolding serverServiceCmd_groups
    by (subst k3s_cmd_sublist) (auto simp: sublist_Cons_right)
  then show ?thesis
    unfolding serverServiceContent_def
    by (subst unit_no_server) (auto simp: sublist_Cons_right)
qed

lemma url_no_init:
  assumes "\<not> sublist ''--cluster-init'' primaryIP"
  shows "\<not> sublist ''--cluster-init'' (''https://'' @ primaryIP @ '':6443'')"
proof -
  have n: "CHR ''/'' \<notin> set ''--cluster-init''" "CHR '':'' \<notin> set ''--cluster-init''" by simp_all
  have "''https://'' @ primaryIP @ '':6443'' = ''https:/'' @ CHR ''/'' # (primaryIP @ CHR '':'' # ''6443'')"
    by simp
  then show ?thesis
    using assms
    by (simp only: sublist_sep[OF n(1)] sublist_sep[OF n(2)]) (simp add: sublist_Cons_right)
qed

lemma server_no_cluster_init:
  assumes "\<forall>v\<in>set (primaryIP # serverValues i node). \<not> sublist ''--cluster-init'' v"
  shows "\<not> sublist ''--cluster-init'' (serverServiceContent i node primaryIP False)"
proof -
  have "\<not> sublist ''--cluster-init'' a"
    if "a \<in> set (roleFlags primaryIP False @ serverFlagGroups i node @ [''--token'', Token (cluster (cfg i))])"
    for a
  proof -
    from that consider "a \<in> set (roleFlags primaryIP False)"
      | "a \<in> set (serverFlagGroups i node @ [''--token'', Token (cluster (cfg i))])"
      by auto
    then show ?thesis
    proof cases
      case 1
      then consider "a = ''server''" | "a = ''--server''" | "a = ''https://'' @ primaryIP @ '':6443''"
        by (auto simp: roleFlags_def)
      then show ?thesis
      proof cases
        case 3 then show ?thesis using url_no_init assms by simp
      qed (simp_all add: sublist_Cons_right)
    next
      case 2
      from mem_serverFlagGroups[OF 2] show ?thesis
        using assms fixedFlags_no_init by auto
    qed
  qed
  then have "\<not> sublist ''--cluster-init'' (serverServiceCmd i node primaryIP False)"
    unfolding serverServiceCmd_groups
    by (subst k3s_cmd_sublist) (auto simp: sublist_Cons_right)
  then show ?thesis
    unfolding serverServiceContent_def
    by (subst unit_no_init) (auto simp: sublist_Cons_right)
qed

lemma agent_no_cluster_init:
  assumes "\<forall>v\<in>set (primaryIP # agentValues i node). \<not> sublist ''--cluster-init'' v"
  shows "\<not> sublist ''--cluster-init'' (agentServiceContent i node primaryIP)"
proof -
  have "\<not> sublist ''--cluster-init'' a"
    if "a \<in> set ([''agent'', ''--server'', ''https://'' @ primaryIP @ '':6443'']
                   @ agentFlagGroups i node @ [''--token'', Token (cluster (cfg i))])"
    for a
  proof -
    from that consider "a = ''agent''" | "a = ''--server''" | "a = ''https://'' @ primaryIP @ '':6443''"
      | "a \<in> set (agentFlagGroups i node @ [''--token'', Token (cluster (cfg i))])"
      by auto
    then show ?thesis
    proof cases
      case 3 then show ?thesis using url_no_init assms by simp
    next
      case 4
      from mem_agentFlagGroups[OF 4] show ?thesis
        using assms fixedFlags_no_init by auto
    qed (simp_all add: sublist_Cons_right)
  qed
  then have "\<not> sublist ''--cluster-init'' (agentServiceCmd i node primaryIP)"
    unfolding agentServiceCmd_def agentServiceArgs_groups
    by (subst k3s_cmd_sublist) (auto simp: sublist_Cons_right)
  then show ?thesis
    unfolding agentServiceContent_def
    by (subst unit_no_init) (auto simp: sublist_Cons_right)
qed

lemma server_has_cluster_init:
  "sublist ''server --cluster-init '' (serverServiceContent i node primaryIP True)"
proof -
  have "serverServiceCmd i node primaryIP True =
          ''/usr/local/bin/k3s '' @ ''server --cluster-init '' @
            joinStr (serverFlagGroups i node @ [''--token'', Token (cluster (cfg i))]) '' ''"
    unfolding serverServiceCmd_groups by (simp add: roleFlags_def joinStr_Cons)
  then have "\<exists>ps ss. serverServiceContent i node primaryIP True = ps @ ''server --cluster-init '' @ ss"
    unfolding serverServiceContent_def unitService_def
    by (metis append.assoc)
  then show ?thesis by (simp add: sublist_def)
qed

lemma server_has_join_target:
  "sublist (''server --server https://'' @ primaryIP @ '':6443 '') (serverServiceContent i node primaryIP False)"
proof -
  have "serverServiceCmd i node primaryIP False =
          ''/usr/local/bin/k3s '' @ (''server --server https://'' @ primaryIP @ '':6443 '') @
            joinStr (serverFlagGroups i node @ [''--token'', Token (cluster (cfg i))]) '' ''"
    unfolding serverServiceCmd_groups by (simp add: roleFlags_def joinStr_Cons)
  then have "\<exists>ps ss. serverServiceContent i node primaryIP False =
                ps @ (''server --server https://'' @ primaryIP @ '':6443 '') @ ss"
    unfolding serverServiceContent_def unitService_def
    by (metis append.assoc)
  then show ?thesis by (simp only: sublist_def)
qed

lemma agent_has_join_target:
  "sublist (''agent --server https://'' @ primaryIP @ '':6443 '') (agentServiceContent i node primaryIP)"
proof -
  have "agentServiceCmd i node primaryIP =
          ''/usr/local/bin/k3s '' @ (''agent --server https://'' @ primaryIP @ '':6443 '') @
            joinStr (agentFlagGroups i node @ [''--token'', Token (cluster (cfg i))]) '' ''"
    unfolding agentServiceCmd_def agentServiceArgs_groups by (simp add: joinStr_Cons)
  then have "\<exists>ps ss. agentServiceContent i node primaryIP =
                ps @ (''agent --server https://'' @ primaryIP @ '':6443 '') @ ss"
    unfolding agentServiceContent_def unitService_def
    by (metis append.assoc)
  then show ?thesis by (simp only: sublist_def)
qed

subsection \<open>The loops of Apply\<close>

lemma installServers_append:
  "installServers w i pip idx (pre @ post) st =
     (case installServers w i pip idx pre st of
        (Some err, st') \<Rightarrow> (Some err, st')
      | (None, st') \<Rightarrow> installServers w i pip (idx + length pre) post st')"
  by (induction pre arbitrary: idx st) (auto split: prod.splits option.splits)

lemma installAgents_append:
  "installAgents w i pip (pre @ post) st =
     (case installAgents w i pip pre st of
        (Some err, st') \<Rightarrow> (Some err, st')
      | (None, st') \<Rightarrow> installAgents w i pip post st')"
  by (induction pre arbitrary: st) (auto split: prod.splits option.splits)


subsection \<open>Replacing a word\<close>

lemma replaceAll_absent: "\<not> sublist old s \<Longrightarrow> replaceAll s old new = s"
proof (induction s old new rule: replaceAll.induct)
  case (1 old new) then show ?case by simp
next
  case (2 c cs old new)
  from 2(3) have np: "\<not> prefix old (c # cs)" and ns: "\<not> sublist old cs"
    by (auto simp: sublist_Cons_right)
  with 2(2) show ?case by simp
qed

lemma replaceAll_miss:
  "\<not> (old \<noteq> [] \<and> prefix old (c # cs)) \<Longrightarrow> replaceAll (c # cs) old new = c # replaceAll cs old new"
  by auto

lemma replaceAll_hit:
  "old \<noteq> [] \<and> prefix old (c # cs) \<Longrightarrow>
     replaceAll (c # cs) old new = new @ replaceAll (drop (length old) (c # cs)) old new"
  by auto

lemma replaceAll_same_gen: "new = old \<Longrightarrow> replaceAll s old new = s"
proof (induction s old new rule: replaceAll.induct)
  case (1 old new) then show ?case by simp
next
  case (2 c cs old new)
  show ?case
  proof (cases "old \<noteq> [] \<and> prefix old (c # cs)")
    case True
    then obtain r where r: "c # cs = old @ r" by (auto simp: prefix_def)
    then have d: "drop (length old) (c # cs) = r" by simp
    from 2(1)[OF True 2(3)] d have "replaceAll r old new = r" by simp
    with replaceAll_hit[OF True, of new] d r 2(3) show ?thesis by simp
  next
    case False
    with 2(2)[OF False 2(3)] replaceAll_miss[OF False] show ?thesis by auto
  qed
qed

lemma replaceAll_same: "replaceAll s old old = s"
  by (rule replaceAll_same_gen) simp

lemma replaceAll_length_le:
  "length new \<le> length old \<Longrightarrow> length (replaceAll s old new) \<le> length s"
proof (induction s old new rule: replaceAll.induct)
  case (1 old new) then show ?case by simp
next
  case (2 c cs old new)
  show ?case
  proof (cases "old \<noteq> [] \<and> prefix old (c # cs)")
    case True
    then have "length old \<le> length (c # cs)" using prefix_length_le by blast
    with 2(1)[OF True 2(3)] replaceAll_hit[OF True, of new] True 2(3) show ?thesis by simp
  next
    case False
    with 2(2)[OF False 2(3)] replaceAll_miss[OF False, of new] show ?thesis by auto
  qed
qed

lemma replaceAll_length_ge:
  "length old \<le> length new \<Longrightarrow> length s \<le> length (replaceAll s old new)"
proof (induction s old new rule: replaceAll.induct)
  case (1 old new) then show ?case by simp
next
  case (2 c cs old new)
  show ?case
  proof (cases "old \<noteq> [] \<and> prefix old (c # cs)")
    case True
    then have "length old \<le> length (c # cs)" using prefix_length_le by blast
    with 2(1)[OF True 2(3)] replaceAll_hit[OF True, of new] True 2(3) show ?thesis by simp
  next
    case False
    with 2(2)[OF False 2(3)] replaceAll_miss[OF False, of new] show ?thesis by auto
  qed
qed

lemma replaceAll_length_lt:
  "old \<noteq> [] \<Longrightarrow> sublist old s \<Longrightarrow> length new < length old
     \<Longrightarrow> length (replaceAll s old new) < length s"
proof (induction s old new rule: replaceAll.induct)
  case (1 old new) then show ?case by simp
next
  case (2 c cs old new)
  show ?case
  proof (cases "old \<noteq> [] \<and> prefix old (c # cs)")
    case True
    then have l: "length old \<le> length (c # cs)" using prefix_length_le by blast
    note h = replaceAll_hit[OF True, of new]
    have "length (replaceAll (drop (length old) (c # cs)) old new) \<le> length (drop (length old) (c # cs))"
      using 2(5) by (intro replaceAll_length_le) simp
    with h l 2(5) show ?thesis by simp
  next
    case False
    with 2(3,4) have "sublist old cs" by (auto simp: sublist_Cons_right)
    with 2(2)[OF False 2(3) _ 2(5)] replaceAll_miss[OF False, of new] show ?thesis by auto
  qed
qed

lemma replaceAll_length_gt:
  "old \<noteq> [] \<Longrightarrow> sublist old s \<Longrightarrow> length old < length new
     \<Longrightarrow> length s < length (replaceAll s old new)"
proof (induction s old new rule: replaceAll.induct)
  case (1 old new) then show ?case by simp
next
  case (2 c cs old new)
  show ?case
  proof (cases "old \<noteq> [] \<and> prefix old (c # cs)")
    case True
    then have l: "length old \<le> length (c # cs)" using prefix_length_le by blast
    note h = replaceAll_hit[OF True, of new]
    have "length (drop (length old) (c # cs)) \<le> length (replaceAll (drop (length old) (c # cs)) old new)"
      using 2(5) by (intro replaceAll_length_ge) simp
    with h l 2(5) show ?thesis by simp
  next
    case False
    with 2(3,4) have "sublist old cs" by (auto simp: sublist_Cons_right)
    with 2(2)[OF False 2(3) _ 2(5)] replaceAll_miss[OF False, of new] show ?thesis by auto
  qed
qed

lemma replaceAll_eqlen_changes:
  "old \<noteq> [] \<Longrightarrow> sublist old s \<Longrightarrow> length new = length old \<Longrightarrow> new \<noteq> old
     \<Longrightarrow> replaceAll s old new \<noteq> s"
proof (induction s old new rule: replaceAll.induct)
  case (1 old new) then show ?case by simp
next
  case (2 c cs old new)
  show ?case
  proof (cases "old \<noteq> [] \<and> prefix old (c # cs)")
    case True
    then obtain r where r: "c # cs = old @ r" by (auto simp: prefix_def)
    have "replaceAll (c # cs) old new = new @ replaceAll (drop (length old) (c # cs)) old new"
      by (rule replaceAll_hit[OF True])
    moreover have "new @ x \<noteq> old @ r" for x
      using 2(5,6) by auto
    ultimately show ?thesis using r by metis
  next
    case False
    with 2(3,4) have "sublist old cs" by (auto simp: sublist_Cons_right)
    with 2(2)[OF False 2(3) _ 2(5) 2(6)] replaceAll_miss[OF False, of new] show ?thesis by auto
  qed
qed

lemma replaceAll_changes:
  assumes "old \<noteq> []" "sublist old s" "new \<noteq> old"
  shows "replaceAll s old new \<noteq> s"
proof -
  consider "length new < length old" | "length old < length new" | "length new = length old"
    by linarith
  then show ?thesis
  proof cases
    case 1
    from replaceAll_length_lt[OF assms(1,2) 1] show ?thesis by auto
  next
    case 2
    from replaceAll_length_gt[OF assms(1,2) 2] show ?thesis by auto
  next
    case 3
    from replaceAll_eqlen_changes[OF assms(1,2) 3 assms(3)] show ?thesis .
  qed
qed

lemma map_of_mapSet: "map_of (mapSet k v m) = (map_of m)(k \<mapsto> v)"
  by (induction m) (auto simp: fun_eq_iff)

lemma navigateServer_setServer:
  "navigateServer (setServer config rest firstCluster clusterData newURL) =
     Some (rest, mapSet ''cluster'' (YMap (mapSet ''server'' (YStr newURL) clusterData)) firstCluster,
           mapSet ''server'' (YStr newURL) clusterData, newURL)"
  by (simp add: navigateServer_def setServer_def map_of_mapSet)

lemma navigateServer_shape:
  assumes "map_of config ''clusters'' = Some (YSeq (YMap firstCluster # rest))"
    and "map_of firstCluster ''cluster'' = Some (YMap clusterData)"
    and "map_of clusterData ''server'' = Some (YStr serverURL)"
  shows "navigateServer config = Some (rest, firstCluster, clusterData, serverURL)"
  using assms by (simp add: navigateServer_def)

lemma navigateServer_anyKey:
  assumes "map_of config ''clusters'' = Some (YSeq (entry # rest))"
    and "(\<exists>kvs. entry = YMapAny kvs) \<or>
         (entry = YMap firstCluster \<and> (\<exists>kvs. map_of firstCluster ''cluster'' = Some (YMapAny kvs)))"
  shows "navigateServer config = None"
  using assms by (auto simp: navigateServer_def)

subsection \<open>Address ranges\<close>

lemma bytesEqual_iff: "bytesEqual a b \<longleftrightarrow> a = b"
  by (auto simp: bytesEqual_def list_all_iff intro: nth_equalityI)

lemma cidrsEqual_refl: "cidrsEqual a a"
  by (simp add: cidrsEqual_def ipEqual_def bytesEqual_iff)

lemma Contains_self:
  assumes "wellFormedNet n"
  shows "Contains n (netIP n)"
proof (cases "To4 (netIP n)")
  case None
  with assms have l: "length (netIP n) = 16" "length (netMask n) = 16"
    by (auto simp: wellFormedNet_def To4_def split: if_splits)
  with None show ?thesis
    by (simp add: Contains_def networkNumberAndMask_def list_all_iff)
next
  case (Some x)
  then have lx: "length x = 4"
    by (auto simp: To4_def split: if_splits)
  from assms have "length (netMask n) = 4 \<or> length (netMask n) = 16"
    by (auto simp: wellFormedNet_def)
  with Some lx show ?thesis
    by (auto simp: Contains_def networkNumberAndMask_def list_all_iff)
qed

lemma disjoint_not_equal:
  assumes "wellFormedNet a" "wellFormedNet b" "cidrAddrs a \<inter> cidrAddrs b = {}"
  shows "\<not> cidrsEqual a b"
proof
  assume e: "cidrsEqual a b"
  then have m: "netMask a = netMask b" and i: "ipEqual (netIP a) (netIP b)"
    by (simp_all add: cidrsEqual_def bytesEqual_iff)
  from m assms(1,2) have "length (netIP a) = length (netIP b)"
    by (auto simp: wellFormedNet_def)
  with i have "netIP a = netIP b" by (simp add: ipEqual_def)
  with Contains_self[OF assms(1)] Contains_self[OF assms(2)]
  have "netIP b \<in> cidrAddrs a \<inter> cidrAddrs b" by (simp add: cidrAddrs_def)
  with assms(3) show False by simp
qed

lemma disjoint_not_overlap:
  assumes "wellFormedNet a" "wellFormedNet b" "cidrAddrs a \<inter> cidrAddrs b = {}"
  shows "\<not> cidrsOverlap a b"
proof
  assume "cidrsOverlap a b"
  then consider "Contains a (netIP b)" | "Contains b (netIP a)"
    by (auto simp: cidrsOverlap_def)
  then show False
  proof cases
    case 1
    with Contains_self[OF assms(2)] have "netIP b \<in> cidrAddrs a \<inter> cidrAddrs b"
      by (simp add: cidrAddrs_def)
    with assms(3) show False by simp
  next
    case 2
    with Contains_self[OF assms(1)] have "netIP a \<in> cidrAddrs a \<inter> cidrAddrs b"
      by (simp add: cidrAddrs_def)
    with assms(3) show False by simp
  qed
qed

lemma Contains_v4_nth:
  assumes "length (netIP n) = 4" "length (netMask n) = 4" "Contains n ip" "i < 4"
  shows "(netIP n ! i) AND (netMask n ! i) =
         ((case To4 ip of Some x \<Rightarrow> x | None \<Rightarrow> ip) ! i) AND (netMask n ! i)"
  using assms
  by (auto simp: Contains_def networkNumberAndMask_def To4_def Let_def list_all_iff
           split: option.splits if_splits)

subsection \<open>Unfolding a concrete run\<close>

lemmas run_defs = installServer_def installServerBody_def installAgent_def installAgentBody_def
  andThen_def prepareNode_def uploadAssets_def uploadTarball_def uploadRegistries_def
  ResolveAsset_def isURL_def runCmd_def clientRun_def clientUpload_def clientUploadBytes_def
  clientDownloadBytes_def sshclientNew_def clientClose_def emit_def sleepSeconds_def
  uninstallScriptContent_def agentUninstallScriptContent_def uninstallScript_def
  downloadKubeconfig_def downloadKubeconfigBody_def saveKubeconfig_def showClusterInfo_def
  Let_def

lemmas ex_defs = failWorld_def okWorld_def noKubeWorld_def exInstaller_def exConfig_def
  exCluster_def exNode_def st0_def

section \<open>Properties of configuration validation\<close>

text \<open>
  C3, as the code has it. A pod range that does not parse is rejected with an error naming
  \<^verbatim>\<open>cluster-cidr\<close>; when the pod range parses, a service range that does not parse is
  rejected with an error naming \<^verbatim>\<open>service-cidr\<close>. When both parse, the configuration is
  rejected if the two ranges are identical or either contains the other's network address,
  and the range checks pass (the result is that of the node checks) if the two ranges share
  no address. Ranges are what \<^verbatim>\<open>net.ParseCIDR\<close> returns: 4 or 16 bytes of address with a
  mask of the same length.
\<close>

theorem validate_cidrs:
  "(parseCIDR nl (ClusterCidr (cluster c)) = Inl e \<longrightarrow>
      Validate nl c = Some (Error (''invalid cluster-cidr: '' @ ClusterCidr (cluster c)
                                    @ '' (error: '' @ errMsg e @ '')'')))
   \<and> (parseCIDR nl (ClusterCidr (cluster c)) = Inr a \<and>
       parseCIDR nl (ServiceCidr (cluster c)) = Inl e \<longrightarrow>
      Validate nl c = Some (Error (''invalid service-cidr: '' @ ServiceCidr (cluster c)
                                    @ '' (error: '' @ errMsg e @ '')'')))
   \<and> (parseCIDR nl (ClusterCidr (cluster c)) = Inr a \<and>
       parseCIDR nl (ServiceCidr (cluster c)) = Inr b \<and>
       (a = b \<or> cidrsEqual a b \<or> Contains a (netIP b) \<or> Contains b (netIP a)) \<longrightarrow>
      Validate nl c = Some (Error (''cluster-cidr and service-cidr cannot be the same: ''
                                    @ ClusterCidr (cluster c)))
      \<or> Validate nl c = Some (Error (''cluster-cidr ('' @ ClusterCidr (cluster c)
                                    @ '') and service-cidr ('' @ ServiceCidr (cluster c)
                                    @ '') overlap'')))
   \<and> (parseCIDR nl (ClusterCidr (cluster c)) = Inr a \<and>
       parseCIDR nl (ServiceCidr (cluster c)) = Inr b \<and>
       wellFormedNet a \<and> wellFormedNet b \<and> cidrAddrs a \<inter> cidrAddrs b = {} \<longrightarrow>
      Validate nl c = (case validateNodes nl ''server'' (servers c) of
                         Some err \<Rightarrow> Some err
                       | None \<Rightarrow> validateNodes nl ''agent'' (agents c)))"
proof (intro conjI impI)
  assume "parseCIDR nl (ClusterCidr (cluster c)) = Inl e"
  then show "Validate nl c = Some (Error (''invalid cluster-cidr: '' @ ClusterCidr (cluster c)
                                    @ '' (error: '' @ errMsg e @ '')''))"
    by (simp add: Validate_def parseAndValidateCIDR_def)
next
  assume "parseCIDR nl (ClusterCidr (cluster c)) = Inr a \<and>
       parseCIDR nl (ServiceCidr (cluster c)) = Inl e"
  then show "Validate nl c = Some (Error (''invalid service-cidr: '' @ ServiceCidr (cluster c)
                                    @ '' (error: '' @ errMsg e @ '')''))"
    by (simp add: Validate_def parseAndValidateCIDR_def)
next
  assume h: "parseCIDR nl (ClusterCidr (cluster c)) = Inr a \<and>
       parseCIDR nl (ServiceCidr (cluster c)) = Inr b \<and>
       (a = b \<or> cidrsEqual a b \<or> Contains a (netIP b) \<or> Contains b (netIP a))"
  then have "cidrsEqual a b \<or> cidrsOverlap a b"
    using cidrsEqual_refl by (auto simp: cidrsOverlap_def)
  with h show "Validate nl c = Some (Error (''cluster-cidr and service-cidr cannot be the same: ''
                                    @ ClusterCidr (cluster c)))
      \<or> Validate nl c = Some (Error (''cluster-cidr ('' @ ClusterCidr (cluster c)
                                    @ '') and service-cidr ('' @ ServiceCidr (cluster c)
                                    @ '') overlap''))"
    by (auto simp: Validate_def parseAndValidateCIDR_def)
next
  assume h: "parseCIDR nl (ClusterCidr (cluster c)) = Inr a \<and>
       parseCIDR nl (ServiceCidr (cluster c)) = Inr b \<and>
       wellFormedNet a \<and> wellFormedNet b \<and> cidrAddrs a \<inter> cidrAddrs b = {}"
  then have "\<not> cidrsEqual a b" "\<not> cidrsOverlap a b"
    using disjoint_not_equal disjoint_not_overlap by blast+
  with h show "Validate nl c = (case validateNodes nl ''server'' (servers c) of
                         Some err \<Rightarrow> Some err
                       | None \<Rightarrow> validateNodes nl ''agent'' (agents c))"
    by (simp add: Validate_def parseAndValidateCIDR_def)
qed

theorem validate_cidrs_witness:
  "Validate exNetLib (cidrConfig ''10.42.0.0/16'' ''10.43.0.0/16'') = None
   \<and> Validate exNetLib (cidrConfig ''10.42.0.0/16'' ''10.42.0.0/16'') =
       Some (Error ''cluster-cidr and service-cidr cannot be the same: 10.42.0.0/16'')
   \<and> Validate exNetLib (cidrConfig ''10.42.0.0/16'' ''10.42.1.0/24'') =
       Some (Error ''cluster-cidr (10.42.0.0/16) and service-cidr (10.42.1.0/24) overlap'')
   \<and> Validate exNetLib (cidrConfig ''10.42.0.0'' ''10.43.0.0/16'') =
       Some (Error ''invalid cluster-cidr: 10.42.0.0 (error: invalid CIDR address: 10.42.0.0)'')
   \<and> Validate exNetLib (cidrConfig ''10.42.0.0/16'' ''10.43.0.0/33'') =
       Some (Error ''invalid service-cidr: 10.43.0.0/33 (error: invalid CIDR address: 10.43.0.0/33)'')"
proof -
  let ?a = "\<lparr>netIP = [10, 42, 0, 0], netMask = [255, 255, 0, 0]\<rparr> :: IPNet"
  let ?b = "\<lparr>netIP = [10, 43, 0, 0], netMask = [255, 255, 0, 0]\<rparr> :: IPNet"
  let ?d = "\<lparr>netIP = [10, 42, 1, 0], netMask = [255, 255, 255, 0]\<rparr> :: IPNet"
  have cc: "ClusterCidr (cluster (cidrConfig p s)) = p" "ServiceCidr (cluster (cidrConfig p s)) = s" for p s
    by (simp_all add: cidrConfig_def)
  have pa: "parseCIDR exNetLib ''10.42.0.0/16'' = Inr ?a"
    and pb: "parseCIDR exNetLib ''10.43.0.0/16'' = Inr ?b"
    and pd: "parseCIDR exNetLib ''10.42.1.0/24'' = Inr ?d"
    and px: "parseCIDR exNetLib ''10.42.0.0'' = Inl (Error ''invalid CIDR address: 10.42.0.0'')"
    and py: "parseCIDR exNetLib ''10.43.0.0/33'' = Inl (Error ''invalid CIDR address: 10.43.0.0/33'')"
    by (simp_all add: exNetLib_def)
  have wf: "wellFormedNet ?a" "wellFormedNet ?b"
    by (simp_all add: wellFormedNet_def)
  have dj: "cidrAddrs ?a \<inter> cidrAddrs ?b = {}"
  proof -
    have False if "Contains ?a ip" "Contains ?b ip" for ip
    proof -
      from Contains_v4_nth[OF _ _ that(1), of 1] Contains_v4_nth[OF _ _ that(2), of 1]
      have "(42 :: byte) AND 255 = 43 AND 255" by simp
      then show False by simp
    qed
    then show ?thesis by (auto simp: cidrAddrs_def)
  qed
  have nodes: "validateNodes exNetLib ''server'' (servers (cidrConfig p s)) = None"
              "validateNodes exNetLib ''agent'' (agents (cidrConfig p s)) = None" for p s
    by (simp_all add: cidrConfig_def exConfig_def exNode_def validateNodeIP_def exNetLib_def)
  have ov: "Contains ?a (netIP ?d)"
    by (simp add: Contains_def networkNumberAndMask_def To4_def upt_rec)
  have ne: "\<not> cidrsEqual ?a ?d"
    by (simp add: cidrsEqual_def ipEqual_def)
  note V = validate_cidrs[where nl = exNetLib]
  from V[of "cidrConfig ''10.42.0.0/16'' ''10.43.0.0/16''" _ ?a ?b] pa pb wf dj
  have 1: "Validate exNetLib (cidrConfig ''10.42.0.0/16'' ''10.43.0.0/16'') = None"
    by (simp add: cc nodes)
  from V[of "cidrConfig ''10.42.0.0/16'' ''10.42.0.0/16''" _ ?a ?a] pa
  have D2: "Validate exNetLib (cidrConfig ''10.42.0.0/16'' ''10.42.0.0/16'') =
       Some (Error ''cluster-cidr and service-cidr cannot be the same: 10.42.0.0/16'')
     \<or> Validate exNetLib (cidrConfig ''10.42.0.0/16'' ''10.42.0.0/16'') =
       Some (Error ''cluster-cidr (10.42.0.0/16) and service-cidr (10.42.0.0/16) overlap'')"
    by (simp add: cc)
  have 2: "Validate exNetLib (cidrConfig ''10.42.0.0/16'' ''10.42.0.0/16'') =
       Some (Error ''cluster-cidr and service-cidr cannot be the same: 10.42.0.0/16'')"
    by (simp add: Validate_def parseAndValidateCIDR_def cc pa cidrsEqual_refl)
  from V[of "cidrConfig ''10.42.0.0/16'' ''10.42.1.0/24''" _ ?a ?d] pa pd ov
  have D3: "Validate exNetLib (cidrConfig ''10.42.0.0/16'' ''10.42.1.0/24'') =
       Some (Error ''cluster-cidr and service-cidr cannot be the same: 10.42.0.0/16'')
     \<or> Validate exNetLib (cidrConfig ''10.42.0.0/16'' ''10.42.1.0/24'') =
       Some (Error ''cluster-cidr (10.42.0.0/16) and service-cidr (10.42.1.0/24) overlap'')"
    by (simp add: cc)
  have 3: "Validate exNetLib (cidrConfig ''10.42.0.0/16'' ''10.42.1.0/24'') =
       Some (Error ''cluster-cidr (10.42.0.0/16) and service-cidr (10.42.1.0/24) overlap'')"
    using ov ne by (simp add: Validate_def parseAndValidateCIDR_def cc pa pd cidrsOverlap_def)
  from V[of "cidrConfig ''10.42.0.0'' ''10.43.0.0/16''" "Error ''invalid CIDR address: 10.42.0.0''"] px
  have 4: "Validate exNetLib (cidrConfig ''10.42.0.0'' ''10.43.0.0/16'') =
       Some (Error ''invalid cluster-cidr: 10.42.0.0 (error: invalid CIDR address: 10.42.0.0)'')"
    by (simp add: cc)
  from V[of "cidrConfig ''10.42.0.0/16'' ''10.43.0.0/33''" "Error ''invalid CIDR address: 10.43.0.0/33''" ?a] pa py
  have 5: "Validate exNetLib (cidrConfig ''10.42.0.0/16'' ''10.43.0.0/33'') =
       Some (Error ''invalid service-cidr: 10.43.0.0/33 (error: invalid CIDR address: 10.43.0.0/33)'')"
    by (simp add: cc)
  show ?thesis using 1 2 3 4 5 D2 D3 by simp
qed

text \<open>
  C3 as stated fails when both ranges are invalid: validation stops at the pod range, and the
  error does not name the service range.
\<close>

theorem both_invalid_counterexample:
  "parseCIDR exNetLib (ServiceCidr (cluster (cidrConfig ''10.42.0.0'' ''10.43.0.0/33''))) =
     Inl (Error ''invalid CIDR address: 10.43.0.0/33'')
   \<and> Validate exNetLib (cidrConfig ''10.42.0.0'' ''10.43.0.0/33'') =
       Some (Error ''invalid cluster-cidr: 10.42.0.0 (error: invalid CIDR address: 10.42.0.0)'')
   \<and> \<not> containsStr ''invalid cluster-cidr: 10.42.0.0 (error: invalid CIDR address: 10.42.0.0)''
                    ''service-cidr''"
  by (simp add: Validate_def parseAndValidateCIDR_def cidrConfig_def exNetLib_def
        containsStr_def sublist_Cons_right)

section \<open>Properties of the unit generator\<close>

text \<open>
  C7. Service-unit generation is a function of the node, the role, the primary address and
  the cluster settings alone: two installers that agree on the cluster settings produce
  byte-identical unit text for the same node, role and primary address, whatever else they
  hold. The generator takes no world and no run state.
\<close>

theorem unit_text_deterministic:
  assumes "cluster (cfg i1) = cluster (cfg i2)"
  shows "serverServiceContent i1 node primaryIP isPrimary = serverServiceContent i2 node primaryIP isPrimary
       \<and> agentServiceContent i1 node primaryIP = agentServiceContent i2 node primaryIP"
  using assms
  by (simp add: serverServiceContent_def serverServiceCmd_def serverServiceArgs_def
        agentServiceContent_def agentServiceCmd_def agentServiceArgs_def)

theorem unit_text_deterministic_witness:
  "cluster (cfg exInstaller) = cluster (cfg exInstaller2)
   \<and> exInstaller \<noteq> exInstaller2
   \<and> serverServiceContent exInstaller (exNode ''s2'' ''10.0.0.2'') ''10.0.0.1'' False
       = serverServiceContent exInstaller2 (exNode ''s2'' ''10.0.0.2'') ''10.0.0.1'' False
   \<and> agentServiceContent exInstaller (exNode ''s2'' ''10.0.0.2'') ''10.0.0.1''
       = agentServiceContent exInstaller2 (exNode ''s2'' ''10.0.0.2'') ''10.0.0.1''"
proof -
  have h: "cluster (cfg exInstaller) = cluster (cfg exInstaller2)"
    by (simp add: exInstaller_def exInstaller2_def exConfig_def)
  have d: "exInstaller \<noteq> exInstaller2"
    by (simp add: exInstaller_def exInstaller2_def)
  show ?thesis
    using h d unit_text_deterministic[OF h, of "exNode ''s2'' ''10.0.0.2''" "''10.0.0.1''" False]
    by simp
qed

text \<open>
  C1, as the code has it. The unit of the primary contains the cluster-initialization flag,
  the unit of a secondary server or of an agent contains the join-target flag with the value
  \<^verbatim>\<open>https://<primaryAddress>:6443\<close>. The generator copies the configured strings into
  the command line as they are, so the absence of the other role's flag holds when no
  configured string contains that flag's text: no join target in the primary's unit when no
  configured value contains \<^verbatim>\<open>--server\<close>, no cluster-initialization flag in the other
  units when neither the primary address nor a configured value contains
  \<^verbatim>\<open>--cluster-init\<close>.
\<close>

theorem role_flags:
  "containsStr (serverServiceContent i node primaryIP True) ''server --cluster-init ''
   \<and> ((\<forall>v\<in>set (serverValues i node). \<not> containsStr v ''--server'')
        \<longrightarrow> \<not> containsStr (serverServiceContent i node primaryIP True) ''--server'')
   \<and> containsStr (serverServiceContent i node primaryIP False)
        (''server --server https://'' @ primaryIP @ '':6443 '')
   \<and> ((\<forall>v\<in>set (primaryIP # serverValues i node). \<not> containsStr v ''--cluster-init'')
        \<longrightarrow> \<not> containsStr (serverServiceContent i node primaryIP False) ''--cluster-init'')
   \<and> containsStr (agentServiceContent i node primaryIP)
        (''agent --server https://'' @ primaryIP @ '':6443 '')
   \<and> ((\<forall>v\<in>set (primaryIP # agentValues i node). \<not> containsStr v ''--cluster-init'')
        \<longrightarrow> \<not> containsStr (agentServiceContent i node primaryIP) ''--cluster-init'')"
  unfolding containsStr_def
  using server_has_cluster_init server_no_join_target server_has_join_target
        server_no_cluster_init agent_has_join_target agent_no_cluster_init
  by blast

theorem role_flags_witness:
  "containsStr (serverServiceContent exInstaller (exNode ''s1'' ''10.0.0.1'') ''10.0.0.1'' True)
        ''server --cluster-init ''
   \<and> \<not> containsStr (serverServiceContent exInstaller (exNode ''s1'' ''10.0.0.1'') ''10.0.0.1'' True)
        ''--server''
   \<and> containsStr (serverServiceContent exInstaller (exNode ''s1'' ''10.0.0.1'') ''10.0.0.1'' False)
        ''server --server https://10.0.0.1:6443 ''
   \<and> \<not> containsStr (serverServiceContent exInstaller (exNode ''s1'' ''10.0.0.1'') ''10.0.0.1'' False)
        ''--cluster-init''
   \<and> containsStr (agentServiceContent exInstaller (exNode ''s1'' ''10.0.0.1'') ''10.0.0.1'')
        ''agent --server https://10.0.0.1:6443 ''
   \<and> \<not> containsStr (agentServiceContent exInstaller (exNode ''s1'' ''10.0.0.1'') ''10.0.0.1'')
        ''--cluster-init''"
proof -
  have h1: "\<forall>v\<in>set (serverValues exInstaller (exNode ''s1'' ''10.0.0.1'')). \<not> containsStr v ''--server''"
    by (simp add: serverValues_def exInstaller_def exConfig_def exCluster_def exNode_def
          containsStr_def sublist_Cons_right)
  have h2: "\<forall>v\<in>set (''10.0.0.1'' # serverValues exInstaller (exNode ''s1'' ''10.0.0.1'')).
          \<not> containsStr v ''--cluster-init''"
    by (simp add: serverValues_def exInstaller_def exConfig_def exCluster_def exNode_def
          containsStr_def sublist_Cons_right)
  have h3: "\<forall>v\<in>set (''10.0.0.1'' # agentValues exInstaller (exNode ''s1'' ''10.0.0.1'')).
          \<not> containsStr v ''--cluster-init''"
    by (simp add: agentValues_def exInstaller_def exConfig_def exCluster_def exNode_def
          containsStr_def sublist_Cons_right)
  from role_flags[of exInstaller "exNode ''s1'' ''10.0.0.1''" "''10.0.0.1''"] h1 h2 h3
  show ?thesis by simp
qed

text \<open>
  C1 as stated fails for every configuration: a token that carries a further flag puts a
  join target into the primary's unit, and a cluster-initialization flag into a secondary's.
\<close>

theorem injected_flag_counterexample:
  "containsStr
     (serverServiceContent (injInstaller ''x --server https://10.9.9.9:6443'')
        (exNode ''s1'' ''10.0.0.1'') ''10.0.0.1'' True)
     '' --server https://10.9.9.9:6443''
   \<and> containsStr
     (serverServiceContent (injInstaller ''x --cluster-init'')
        (exNode ''s2'' ''10.0.0.2'') ''10.0.0.1'' False)
     '' --cluster-init''"
proof -
  have a: "serverServiceContent (injInstaller ''x --server https://10.9.9.9:6443'')
        (exNode ''s1'' ''10.0.0.1'') ''10.0.0.1'' True
      = (''[Unit]'' @ [CHR 0x0A] @ ''Description=k3s'' @ [CHR 0x0A] @ ''After=network.target'' @ [CHR 0x0A]
         @ ''[Service]'' @ [CHR 0x0A] @ ''Type=notify'' @ [CHR 0x0A] @ ''ExecStart=''
         @ ''/usr/local/bin/k3s server --cluster-init --flannel-backend vxlan --cluster-cidr 10.42.0.0/16 --service-cidr 10.43.0.0/16 --data-dir /data/k3s --node-name s1 --embedded-registry --disable traefik --token x'')
        @ '' --server https://10.9.9.9:6443'' @
        ([CHR 0x0A] @ ''Restart=always'' @ [CHR 0x0A] @ ''LimitNOFILE=1048576'' @ [CHR 0x0A]
         @ ''[Install]'' @ [CHR 0x0A] @ ''WantedBy=multi-user.target'' @ [CHR 0x0A])"
    by (simp add: serverServiceContent_def serverServiceCmd_def serverServiceArgs_def unitService_def
          injInstaller_def exInstaller_def exConfig_def exCluster_def exNode_def)
  have b: "serverServiceContent (injInstaller ''x --cluster-init'')
        (exNode ''s2'' ''10.0.0.2'') ''10.0.0.1'' False
      = (''[Unit]'' @ [CHR 0x0A] @ ''Description=k3s'' @ [CHR 0x0A] @ ''After=network.target'' @ [CHR 0x0A]
         @ ''[Service]'' @ [CHR 0x0A] @ ''Type=notify'' @ [CHR 0x0A] @ ''ExecStart=''
         @ ''/usr/local/bin/k3s server --server https://10.0.0.1:6443 --flannel-backend vxlan --cluster-cidr 10.42.0.0/16 --service-cidr 10.43.0.0/16 --data-dir /data/k3s --node-name s2 --embedded-registry --disable traefik --token x'')
        @ '' --cluster-init'' @
        ([CHR 0x0A] @ ''Restart=always'' @ [CHR 0x0A] @ ''LimitNOFILE=1048576'' @ [CHR 0x0A]
         @ ''[Install]'' @ [CHR 0x0A] @ ''WantedBy=multi-user.target'' @ [CHR 0x0A])"
    by (simp add: serverServiceContent_def serverServiceCmd_def serverServiceArgs_def unitService_def
          injInstaller_def exInstaller_def exConfig_def exCluster_def exNode_def)
  show ?thesis
    unfolding containsStr_def
    by (simp only: a b sublist_appendI)
qed

text \<open>
  C4, as the code has it. The command line is the binary followed by, in this order: the role
  flags, the flannel backend, the two network ranges, the data directory, the node name, the
  embedded-registry switch, the certificate names, the disabled components, the node labels
  and finally the token; an agent has the role flags, the data directory, the node name, the
  node labels and the token. Every flag but the token is left out when its value is empty;
  the token flag is always written.
\<close>

theorem flag_order:
  "serverServiceContent i node primaryIP isPrimary =
     unitService ''k3s'' (''/usr/local/bin/k3s '' @
       joinStr (roleFlags primaryIP isPrimary @ serverFlagGroups i node
                  @ [''--token'', Token (cluster (cfg i))]) '' '')
   \<and> agentServiceContent i node primaryIP =
     unitService ''k3s-agent'' (''/usr/local/bin/k3s '' @
       joinStr ([''agent'', ''--server'', ''https://'' @ primaryIP @ '':6443''] @ agentFlagGroups i node
                  @ [''--token'', Token (cluster (cfg i))]) '' '')"
  by (simp add: serverServiceContent_def serverServiceCmd_groups agentServiceContent_def
        agentServiceCmd_def agentServiceArgs_groups)

theorem flag_order_witness:
  "serverServiceContent exInstaller (exNode ''s1'' ''10.0.0.1'') ''10.0.0.1'' True =
     unitService ''k3s''
       ''/usr/local/bin/k3s server --cluster-init --flannel-backend vxlan --cluster-cidr 10.42.0.0/16 --service-cidr 10.43.0.0/16 --data-dir /data/k3s --node-name s1 --embedded-registry --disable traefik --token k3air-token''
   \<and> agentServiceContent exInstaller (exNode ''a1'' ''10.0.0.9'') ''10.0.0.1'' =
     unitService ''k3s-agent''
       ''/usr/local/bin/k3s agent --server https://10.0.0.1:6443 --data-dir /data/k3s --node-name a1 --token k3air-token''"
  using flag_order[of exInstaller "exNode ''s1'' ''10.0.0.1''" "''10.0.0.1''" True]
        flag_order[of exInstaller "exNode ''a1'' ''10.0.0.9''" "''10.0.0.1''" True]
  by (simp add: roleFlags_def serverFlagGroups_def agentFlagGroups_def flagOpt_def flagEach_def
        exInstaller_def exConfig_def exCluster_def exNode_def)

text \<open>
  C4 as stated fails for an empty token: the flag is written with an empty argument.
\<close>

theorem empty_token_counterexample:
  "serverServiceContent bareInstaller (exNode [] ''10.0.0.1'') ''10.0.0.1'' True =
     unitService ''k3s'' ''/usr/local/bin/k3s server --cluster-init --token ''
   \<and> agentServiceArgs bareInstaller (exNode [] ''10.0.0.9'') ''10.0.0.1'' =
     [''agent'', ''--server'', ''https://10.0.0.1:6443'', ''--token'', []]"
  by (simp add: serverServiceContent_def serverServiceCmd_def serverServiceArgs_def
        agentServiceArgs_def bareInstaller_def exInstaller_def exConfig_def exNode_def)

section \<open>Properties of asset resolution\<close>

text \<open>
  C8. For a reference that is not an http(s) URL and names an existing local file,
  \<^verbatim>\<open>ResolveAsset\<close> returns that very string; the only event of the call is the file-system
  check of the path (nothing is created, fetched or copied), and the asset manager, with its
  list of downloaded files, is left as it was.
\<close>

theorem resolve_local_identity:
  assumes "\<not> isURL source" and "osStat w (trace st) source = StatOk"
  shows "ResolveAsset w source description st = (Inr source, st\<lparr>trace := trace st @ [EvStat source]\<rparr>)
       \<and> am (snd (ResolveAsset w source description st)) = am st"
  using assms by (simp add: ResolveAsset_def emit_def)

theorem resolve_local_identity_witness:
  "\<not> isURL ''./k3s'' \<and> osStat okWorld (trace st0) ''./k3s'' = StatOk
   \<and> ResolveAsset okWorld ''./k3s'' ''k3s binary'' st0
       = (Inr ''./k3s'', \<lparr>trace = [EvStat ''./k3s''],
                          am = \<lparr>tempDir = ''/tmp/k3air-assets-1'', downloadedFiles = []\<rparr>\<rparr>)"
proof -
  have h1: "\<not> isURL ''./k3s''" by (simp add: isURL_def)
  have h2: "osStat okWorld (trace st0) ''./k3s'' = StatOk" by (simp add: okWorld_def)
  show ?thesis
    using h1 h2 resolve_local_identity[OF h1 h2, of "''k3s binary''"]
    by (simp add: st0_def)
qed

section \<open>Properties of the kubeconfig patcher\<close>

text \<open>
  C5, as the code has it. Take a document that parses, in which \<^verbatim>\<open>clusters\<close> is a list
  whose first entry is a mapping with string keys, whose \<^verbatim>\<open>cluster\<close> value is again a
  mapping with string keys, and whose \<^verbatim>\<open>server\<close> value is a string. If that URL contains
  the loopback host \<^verbatim>\<open>127.0.0.1\<close> and the given address is not itself \<^verbatim>\<open>127.0.0.1\<close>, the
  result reports a replacement and is the serialization of the document with the loopback
  host in that URL replaced by the address, all other top-level entries as before. If the
  URL contains no loopback host, or the given address is \<^verbatim>\<open>127.0.0.1\<close>, the document is
  serialized as parsed and no replacement is reported. The same happens, whatever the URL,
  when the first entry or its \<^verbatim>\<open>cluster\<close> value is a mapping with a key that is not a
  string.
\<close>

theorem patch_server_address:
  assumes "yamlUnmarshal yl data = Inr config"
  shows "(map_of config ''clusters'' = Some (YSeq (YMap firstCluster # rest)) \<and>
          map_of firstCluster ''cluster'' = Some (YMap clusterData) \<and>
          map_of clusterData ''server'' = Some (YStr serverURL) \<and>
          containsStr serverURL ''127.0.0.1'' \<and> serverIP \<noteq> ''127.0.0.1'' \<longrightarrow>
            replaceKubeconfigServer yl data serverIP =
              (case yamlMarshal yl (setServer config rest firstCluster clusterData
                                      (replaceAll serverURL ''127.0.0.1'' serverIP)) of
                 Inl err \<Rightarrow> ([], True, Some err)
               | Inr modified \<Rightarrow> (modified, True, None))
          \<and> (\<exists>fc cd. navigateServer (setServer config rest firstCluster clusterData
                                        (replaceAll serverURL ''127.0.0.1'' serverIP)) =
                        Some (rest, fc, cd, replaceAll serverURL ''127.0.0.1'' serverIP))
          \<and> (\<forall>k. k \<noteq> ''clusters'' \<longrightarrow>
                 map_of (setServer config rest firstCluster clusterData
                           (replaceAll serverURL ''127.0.0.1'' serverIP)) k = map_of config k))
       \<and> (map_of config ''clusters'' = Some (YSeq (YMap firstCluster # rest)) \<and>
          map_of firstCluster ''cluster'' = Some (YMap clusterData) \<and>
          map_of clusterData ''server'' = Some (YStr serverURL) \<and>
          (\<not> containsStr serverURL ''127.0.0.1'' \<or> serverIP = ''127.0.0.1'') \<longrightarrow>
            replaceKubeconfigServer yl data serverIP =
              (case yamlMarshal yl config of
                 Inl err \<Rightarrow> ([], False, Some err)
               | Inr modified \<Rightarrow> (modified, False, None)))
       \<and> (map_of config ''clusters'' = Some (YSeq (entry # rest)) \<and>
          ((\<exists>kvs. entry = YMapAny kvs) \<or>
           (entry = YMap firstCluster \<and>
            (\<exists>kvs. map_of firstCluster ''cluster'' = Some (YMapAny kvs)))) \<longrightarrow>
            replaceKubeconfigServer yl data serverIP =
              (case yamlMarshal yl config of
                 Inl err \<Rightarrow> ([], False, Some err)
               | Inr modified \<Rightarrow> (modified, False, None)))"
proof (intro conjI impI allI)
  assume a: "map_of config ''clusters'' = Some (YSeq (YMap firstCluster # rest)) \<and>
          map_of firstCluster ''cluster'' = Some (YMap clusterData) \<and>
          map_of clusterData ''server'' = Some (YStr serverURL) \<and>
          containsStr serverURL ''127.0.0.1'' \<and> serverIP \<noteq> ''127.0.0.1''"
  then have n: "navigateServer config = Some (rest, firstCluster, clusterData, serverURL)"
    by (intro navigateServer_shape) simp_all
  from a have "replaceAll serverURL ''127.0.0.1'' serverIP \<noteq> serverURL"
    by (intro replaceAll_changes) (simp_all add: containsStr_def)
  then show "replaceKubeconfigServer yl data serverIP =
              (case yamlMarshal yl (setServer config rest firstCluster clusterData
                                      (replaceAll serverURL ''127.0.0.1'' serverIP)) of
                 Inl err \<Rightarrow> ([], True, Some err)
               | Inr modified \<Rightarrow> (modified, True, None))"
    using assms n by (simp add: replaceKubeconfigServer_def Let_def split: sum.splits)
next
  show "\<exists>fc cd. navigateServer (setServer config rest firstCluster clusterData
                                        (replaceAll serverURL ''127.0.0.1'' serverIP)) =
                        Some (rest, fc, cd, replaceAll serverURL ''127.0.0.1'' serverIP)"
    by (simp add: navigateServer_setServer)
next
  fix k :: string
  assume "k \<noteq> ''clusters''"
  then show "map_of (setServer config rest firstCluster clusterData
                           (replaceAll serverURL ''127.0.0.1'' serverIP)) k = map_of config k"
    by (simp add: setServer_def map_of_mapSet)
next
  assume a: "map_of config ''clusters'' = Some (YSeq (YMap firstCluster # rest)) \<and>
          map_of firstCluster ''cluster'' = Some (YMap clusterData) \<and>
          map_of clusterData ''server'' = Some (YStr serverURL) \<and>
          (\<not> containsStr serverURL ''127.0.0.1'' \<or> serverIP = ''127.0.0.1'')"
  then have n: "navigateServer config = Some (rest, firstCluster, clusterData, serverURL)"
    by (intro navigateServer_shape) simp_all
  from a have "replaceAll serverURL ''127.0.0.1'' serverIP = serverURL"
    using replaceAll_absent[of "''127.0.0.1''" serverURL serverIP]
          replaceAll_same[of serverURL "''127.0.0.1''"]
    by (auto simp: containsStr_def)
  then show "replaceKubeconfigServer yl data serverIP =
              (case yamlMarshal yl config of
                 Inl err \<Rightarrow> ([], False, Some err)
               | Inr modified \<Rightarrow> (modified, False, None))"
    using assms n by (simp add: replaceKubeconfigServer_def Let_def split: sum.splits)
next
  assume a: "map_of config ''clusters'' = Some (YSeq (entry # rest)) \<and>
          ((\<exists>kvs. entry = YMapAny kvs) \<or>
           (entry = YMap firstCluster \<and>
            (\<exists>kvs. map_of firstCluster ''cluster'' = Some (YMapAny kvs))))"
  then have "navigateServer config = None"
    using navigateServer_anyKey[of config entry rest firstCluster] by blast
  then show "replaceKubeconfigServer yl data serverIP =
              (case yamlMarshal yl config of
                 Inl err \<Rightarrow> ([], False, Some err)
               | Inr modified \<Rightarrow> (modified, False, None))"
    using assms by (simp add: replaceKubeconfigServer_def)
qed

theorem patch_server_address_witness:
  "replaceKubeconfigServer (exYamlLib (exKubeconfig ''https://127.0.0.1:6443'')) ''doc'' ''10.0.0.1''
     = (''server: https://10.0.0.1:6443'', True, None)
   \<and> replaceKubeconfigServer (exYamlLib (exKubeconfig ''https://192.168.1.5:6443'')) ''doc'' ''10.0.0.1''
     = (''server: https://192.168.1.5:6443'', False, None)
   \<and> fst (snd (replaceKubeconfigServer (exYamlLib (anyKeyKubeconfig ''https://127.0.0.1:6443''))
                  ''doc'' ''10.0.0.1'')) = False"
proof -
  let ?l = "''https://127.0.0.1:6443''"
  let ?r = "''https://192.168.1.5:6443''"
  let ?fc = "\<lambda>url. [(''cluster'', YMap [(''server'', YStr url)]), (''name'', YStr ''default'')]"
  let ?gc = "[(''cluster'', YMapAny [(YStr ''server'', YStr ?l), (YInt 1, YStr ''x'')]),
              (''name'', YStr ''default'')]"
  have u: "yamlUnmarshal (exYamlLib doc) ''doc'' = Inr doc" for doc
    by (simp add: exYamlLib_def)
  have s1: "map_of (exKubeconfig url) ''clusters'' = Some (YSeq (YMap (?fc url) # []))" for url
    by (simp add: exKubeconfig_def)
  have s2: "map_of (?fc url) ''cluster'' = Some (YMap [(''server'', YStr url)])" for url
    by simp
  have s3: "map_of [(''server'', YStr url)] ''server'' = Some (YStr url)" for url
    by simp
  have n: "navigateServer (exKubeconfig url) = Some ([], ?fc url, [(''server'', YStr url)], url)" for url
    by (simp add: navigateServer_def exKubeconfig_def)
  have c1: "containsStr ?l ''127.0.0.1'' \<and> ''10.0.0.1'' \<noteq> ''127.0.0.1''"
    by (simp add: containsStr_def sublist_Cons_right)
  have c2: "\<not> containsStr ?r ''127.0.0.1'' \<or> ''10.0.0.1'' = ''127.0.0.1''"
    by (simp add: containsStr_def sublist_Cons_right)
  have r: "replaceAll ?l ''127.0.0.1'' ''10.0.0.1'' = ''https://10.0.0.1:6443''"
    by simp
  have t1: "map_of (anyKeyKubeconfig ?l) ''clusters'' = Some (YSeq (YMap ?gc # []))"
    by (simp add: anyKeyKubeconfig_def)
  have t2: "\<exists>kvs. map_of ?gc ''cluster'' = Some (YMapAny kvs)"
    by simp
  have t3: "navigateServer (anyKeyKubeconfig ?l) = None"
    by (simp add: navigateServer_def anyKeyKubeconfig_def)
  from patch_server_address[OF u, where config = "exKubeconfig ?l" and firstCluster = "?fc ?l"
      and rest = "[]" and clusterData = "[(''server'', YStr ?l)]" and serverURL = ?l
      and serverIP = "''10.0.0.1''"] s1 s2 s3 c1
  have A: "replaceKubeconfigServer (exYamlLib (exKubeconfig ?l)) ''doc'' ''10.0.0.1''
     = (''server: https://10.0.0.1:6443'', True, None)"
    by (simp add: r exYamlLib_def navigateServer_setServer)
  from patch_server_address[OF u, where config = "exKubeconfig ?r" and firstCluster = "?fc ?r"
      and rest = "[]" and clusterData = "[(''server'', YStr ?r)]" and serverURL = ?r
      and serverIP = "''10.0.0.1''"] s1 s2 s3 c2
  have B: "replaceKubeconfigServer (exYamlLib (exKubeconfig ?r)) ''doc'' ''10.0.0.1''
     = (''server: https://192.168.1.5:6443'', False, None)"
    by (simp add: exYamlLib_def n)
  from patch_server_address[OF u, where config = "anyKeyKubeconfig ?l" and entry = "YMap ?gc"
      and rest = "[]" and firstCluster = ?gc and serverIP = "''10.0.0.1''"] t1 t2
  have C: "fst (snd (replaceKubeconfigServer (exYamlLib (anyKeyKubeconfig ?l)) ''doc'' ''10.0.0.1''))
             = False"
    by (simp add: exYamlLib_def t3)
  show ?thesis using A B C by simp
qed

text \<open>
  C5 as stated fails in two ways. When the primary's address is \<^verbatim>\<open>127.0.0.1\<close>, the URL
  contains the loopback host and no replacement is reported. When the cluster mapping of a
  parseable document has a key that is not a string, its server URL contains the loopback
  host, the given address is another one, and still no replacement is reported.
\<close>

theorem no_replacement_counterexample:
  "containsStr ''https://127.0.0.1:6443'' ''127.0.0.1''
   \<and> replaceKubeconfigServer (exYamlLib (exKubeconfig ''https://127.0.0.1:6443'')) ''doc'' ''127.0.0.1''
     = (''server: https://127.0.0.1:6443'', False, None)
   \<and> yamlUnmarshal (exYamlLib (anyKeyKubeconfig ''https://127.0.0.1:6443'')) ''doc''
     = Inr (anyKeyKubeconfig ''https://127.0.0.1:6443'')
   \<and> fst (snd (replaceKubeconfigServer (exYamlLib (anyKeyKubeconfig ''https://127.0.0.1:6443''))
                  ''doc'' ''10.0.0.1'')) = False"
  by (simp add: containsStr_def sublist_Cons_right replaceKubeconfigServer_def exYamlLib_def
        exKubeconfig_def anyKeyKubeconfig_def navigateServer_def)

text \<open>
  C10. When the input parses but lacks the expected shape (no \<^verbatim>\<open>clusters\<close> key, an empty
  list, or a value of another type at \<^verbatim>\<open>clusters[0]\<close>, at its \<^verbatim>\<open>cluster\<close> entry or at the
  \<^verbatim>\<open>server\<close> entry of that), \<^verbatim>\<open>replaceKubeconfigServer\<close> serializes the parsed document
  as it is and reports no replacement; it returns an error exactly when serializing fails.
\<close>

theorem patch_shapeless:
  assumes "yamlUnmarshal yl data = Inr config"
    and "map_of config ''clusters'' = None
       \<or> map_of config ''clusters'' = Some (YSeq [])
       \<or> (\<exists>v rest. map_of config ''clusters'' = Some (YSeq (v # rest)) \<and> (\<forall>m. v \<noteq> YMap m))
       \<or> (\<exists>fc rest. map_of config ''clusters'' = Some (YSeq (YMap fc # rest))
             \<and> (\<forall>m. map_of fc ''cluster'' \<noteq> Some (YMap m)))
       \<or> (\<exists>fc rest cd. map_of config ''clusters'' = Some (YSeq (YMap fc # rest))
             \<and> map_of fc ''cluster'' = Some (YMap cd)
             \<and> (\<forall>s. map_of cd ''server'' \<noteq> Some (YStr s)))"
  shows "replaceKubeconfigServer yl data serverIP =
           (case yamlMarshal yl config of
              Inl err \<Rightarrow> ([], False, Some err)
            | Inr modified \<Rightarrow> (modified, False, None))"
proof -
  have "navigateServer config = None"
    using assms(2) unfolding navigateServer_def
    by (auto split: option.splits yaml.splits list.splits)
  then show ?thesis
    using assms(1) by (simp add: replaceKubeconfigServer_def)
qed

theorem patch_shapeless_witness:
  "yamlUnmarshal (exYamlLib [(''clusters'', YSeq [YStr ''oops''])]) ''doc''
     = Inr [(''clusters'', YSeq [YStr ''oops''])]
   \<and> replaceKubeconfigServer (exYamlLib [(''clusters'', YSeq [YStr ''oops''])]) ''doc'' ''10.0.0.1''
     = (''{}'', False, None)"
proof -
  let ?doc = "[(''clusters'', YSeq [YStr ''oops''])]"
  have h1: "yamlUnmarshal (exYamlLib ?doc) ''doc'' = Inr ?doc"
    by (simp add: exYamlLib_def)
  have h2: "map_of ?doc ''clusters'' = None
       \<or> map_of ?doc ''clusters'' = Some (YSeq [])
       \<or> (\<exists>v rest. map_of ?doc ''clusters'' = Some (YSeq (v # rest)) \<and> (\<forall>m. v \<noteq> YMap m))
       \<or> (\<exists>fc rest. map_of ?doc ''clusters'' = Some (YSeq (YMap fc # rest))
             \<and> (\<forall>m. map_of fc ''cluster'' \<noteq> Some (YMap m)))
       \<or> (\<exists>fc rest cd. map_of ?doc ''clusters'' = Some (YSeq (YMap fc # rest))
             \<and> map_of fc ''cluster'' = Some (YMap cd)
             \<and> (\<forall>s. map_of cd ''server'' \<noteq> Some (YStr s)))"
    by simp
  show ?thesis
    using h1 patch_shapeless[OF h1 h2, of "''10.0.0.1''"]
    by (simp add: exYamlLib_def navigateServer_def)
qed

section \<open>Properties of Apply\<close>

text \<open>
  C2. Apply provisions the servers in declared order, the first as primary, then the agents
  in declared order. If the servers before some server have been provisioned and that
  server's sequence fails, Apply returns that very error and the run ends in the state the
  failing sequence left: no event of a later node occurs and nothing done before is undone.
  The same holds for an agent after all servers and the agents before it.
\<close>

theorem apply_fail_fast:
  assumes "servers (cfg i) = primary # others"
  shows "(servers (cfg i) = pre @ srv # post \<and>
          installServers w i (IP primary) 0 pre st = (None, stA) \<and>
          installServer w i srv (IP primary) (length pre = 0) stA = (Some err, stB)
          \<longrightarrow> Apply w i st = (Some err, stB))
       \<and> (installServers w i (IP primary) 0 (servers (cfg i)) st = (None, stA) \<and>
          agents (cfg i) = apre @ ag # apost \<and>
          installAgents w i (IP primary) apre stA = (None, stB) \<and>
          installAgent w i ag (IP primary) stB = (Some err, stC)
          \<longrightarrow> Apply w i st = (Some err, stC))"
proof (intro conjI impI)
  assume a: "servers (cfg i) = pre @ srv # post \<and>
          installServers w i (IP primary) 0 pre st = (None, stA) \<and>
          installServer w i srv (IP primary) (length pre = 0) stA = (Some err, stB)"
  then have "installServers w i (IP primary) 0 (pre @ srv # post) st = (Some err, stB)"
    by (simp add: installServers_append)
  with a have "installServers w i (IP primary) 0 (servers (cfg i)) st = (Some err, stB)"
    by simp
  then show "Apply w i st = (Some err, stB)"
    by (simp add: Apply_def assms)
next
  assume a: "installServers w i (IP primary) 0 (servers (cfg i)) st = (None, stA) \<and>
          agents (cfg i) = apre @ ag # apost \<and>
          installAgents w i (IP primary) apre stA = (None, stB) \<and>
          installAgent w i ag (IP primary) stB = (Some err, stC)"
  then have "installAgents w i (IP primary) (apre @ ag # apost) stA = (Some err, stC)"
    by (simp add: installAgents_append)
  with a have "installAgents w i (IP primary) (agents (cfg i)) stA = (Some err, stC)"
    by simp
  with a show "Apply w i st = (Some err, stC)"
    by (simp add: Apply_def assms)
qed

theorem apply_fail_fast_witness:
  "fst (Apply (failWorld ''10.0.0.2'' ''systemctl restart k3s'') exInstaller st0) =
     Some (Error (''cmd failed: systemctl restart k3s'' @ [CHR 0x0A] @ ''stdout:'' @ [CHR 0x0A]
                   @ [CHR 0x0A] @ ''stderr:'' @ [CHR 0x0A] @ ''boom'' @ [CHR 0x0A]
                   @ ''err: exit status 1''))
   \<and> EvConnect ''10.0.0.1'' 22 ''root'' ''secret'' []
       \<in> set (trace (snd (Apply (failWorld ''10.0.0.2'' ''systemctl restart k3s'') exInstaller st0)))
   \<and> EvConnect ''10.0.0.3'' 22 ''root'' ''secret'' []
       \<notin> set (trace (snd (Apply (failWorld ''10.0.0.2'' ''systemctl restart k3s'') exInstaller st0)))
   \<and> fst (Apply (failWorld ''10.0.0.9'' ''systemctl restart k3s-agent'') exInstaller st0) =
     Some (Error (''cmd failed: systemctl restart k3s-agent'' @ [CHR 0x0A] @ ''stdout:'' @ [CHR 0x0A]
                   @ [CHR 0x0A] @ ''stderr:'' @ [CHR 0x0A] @ ''boom'' @ [CHR 0x0A]
                   @ ''err: exit status 1''))"
proof -
  let ?W = "failWorld ''10.0.0.2'' ''systemctl restart k3s''"
  let ?V = "failWorld ''10.0.0.9'' ''systemctl restart k3s-agent''"
  let ?s1 = "exNode ''s1'' ''10.0.0.1''"
  let ?s2 = "exNode ''s2'' ''10.0.0.2''"
  let ?s3 = "exNode ''s3'' ''10.0.0.3''"
  let ?a1 = "exNode ''a1'' ''10.0.0.9''"
  let ?X = "installServers ?W exInstaller (IP ?s1) 0 [?s1] st0"
  let ?Y = "installServer ?W exInstaller ?s2 (IP ?s1) (length [?s1] = 0) (snd ?X)"
  let ?e = "Error (''cmd failed: systemctl restart k3s'' @ [CHR 0x0A] @ ''stdout:'' @ [CHR 0x0A]
                   @ [CHR 0x0A] @ ''stderr:'' @ [CHR 0x0A] @ ''boom'' @ [CHR 0x0A]
                   @ ''err: exit status 1'')"
  let ?f = "Error (''cmd failed: systemctl restart k3s-agent'' @ [CHR 0x0A] @ ''stdout:'' @ [CHR 0x0A]
                   @ [CHR 0x0A] @ ''stderr:'' @ [CHR 0x0A] @ ''boom'' @ [CHR 0x0A]
                   @ ''err: exit status 1'')"
  have sv: "servers (cfg exInstaller) = ?s1 # [?s2, ?s3]"
    by (simp add: exInstaller_def exConfig_def)
  have sp: "servers (cfg exInstaller) = [?s1] @ ?s2 # [?s3]"
    by (simp add: exInstaller_def exConfig_def)
  have ag: "agents (cfg exInstaller) = [] @ ?a1 # []"
    by (simp add: exInstaller_def exConfig_def)
  have x: "?X = (None, snd ?X)"
    by (simp add: run_defs ex_defs prod_eq_iff)
  have y: "?Y = (Some ?e, snd ?Y)"
    by (simp add: run_defs ex_defs prod_eq_iff)
  from apply_fail_fast[OF sv, where pre="[?s1]" and srv="?s2" and post="[?s3]" and w="?W" and st=st0
      and stA="snd ?X" and err="?e" and stB="snd ?Y"] sp x y
  have A: "Apply ?W exInstaller st0 = (Some ?e, snd ?Y)"
    by blast
  have t1: "EvConnect ''10.0.0.1'' 22 ''root'' ''secret'' [] \<in> set (trace (snd ?Y))"
    by (simp add: run_defs ex_defs)
  have t3: "EvConnect ''10.0.0.3'' 22 ''root'' ''secret'' [] \<notin> set (trace (snd ?Y))"
    by (simp add: run_defs ex_defs)
  let ?P = "installServers ?V exInstaller (IP ?s1) 0 (servers (cfg exInstaller)) st0"
  let ?Q = "installAgent ?V exInstaller ?a1 (IP ?s1) (snd ?P)"
  have p: "?P = (None, snd ?P)"
    by (simp add: run_defs ex_defs prod_eq_iff)
  have q0: "installAgents ?V exInstaller (IP ?s1) [] (snd ?P) = (None, snd ?P)"
    by simp
  have q: "?Q = (Some ?f, snd ?Q)"
    by (simp add: run_defs ex_defs prod_eq_iff)
  from apply_fail_fast[OF sv, where w="?V" and st=st0 and stA="snd ?P" and apre="[]" and ag="?a1"
      and apost="[]" and stB="snd ?P" and err="?f" and stC="snd ?Q"] p ag q0 q
  have B: "Apply ?V exInstaller st0 = (Some ?f, snd ?Q)"
    by blast
  show ?thesis
    using A B t1 t3 by simp
qed



text \<open>
  C9. The last command of a server's sequence, after the two-second pause, writes
  \<^verbatim>\<open>/usr/local/bin/kubectl\<close>; an agent's sequence ends with the pause. The command is
  \<^verbatim>\<open>cp\<close>, a copy of the binary, where the source's own log line announces a symlink.
\<close>

theorem kubectl_step_is_copy:
  "installServer okWorld exInstaller (exNode ''s1'' ''10.0.0.1'') ''10.0.0.1'' True st0 =
     (None,
      st0\<lparr>trace :=
        [EvConnect ''10.0.0.1'' 22 ''root'' ''secret'' [],
         EvRun (''10.0.0.1'', 22) ''mkdir -p /usr/local/bin'',
         EvRun (''10.0.0.1'', 22) ''mkdir -p /data/k3s/agent/images'',
         EvRun (''10.0.0.1'', 22) ''mkdir -p /etc/rancher/k3s'',
         EvStat ''k3s'', EvStat ''k3s'',
         EvUpload (''10.0.0.1'', 22) ''k3s'' ''/usr/local/bin/k3s'',
         EvRun (''10.0.0.1'', 22) ''chmod +x /usr/local/bin/k3s'',
         EvUploadBytes (''10.0.0.1'', 22) ''uninstall /data/k3s'' ''/usr/local/bin/k3s-uninstall.sh'',
         EvRun (''10.0.0.1'', 22) ''chmod +x /usr/local/bin/k3s-uninstall.sh'',
         EvUploadBytes (''10.0.0.1'', 22)
           (serverServiceContent exInstaller (exNode ''s1'' ''10.0.0.1'') ''10.0.0.1'' True)
           ''/etc/systemd/system/k3s.service'',
         EvRun (''10.0.0.1'', 22) ''systemctl daemon-reload'',
         EvRun (''10.0.0.1'', 22) ''systemctl enable k3s'',
         EvRun (''10.0.0.1'', 22) ''systemctl restart k3s'',
         EvSleep 2,
         EvRun (''10.0.0.1'', 22) ''cp /usr/local/bin/k3s /usr/local/bin/kubectl -f'',
         EvClose (''10.0.0.1'', 22)]\<rparr>)
   \<and> installAgent okWorld exInstaller (exNode ''a1'' ''10.0.0.9'') ''10.0.0.1'' st0 =
     (None,
      st0\<lparr>trace :=
        [EvConnect ''10.0.0.9'' 22 ''root'' ''secret'' [],
         EvRun (''10.0.0.9'', 22) ''mkdir -p /usr/local/bin'',
         EvRun (''10.0.0.9'', 22) ''mkdir -p /data/k3s/agent/images'',
         EvRun (''10.0.0.9'', 22) ''mkdir -p /etc/rancher/k3s'',
         EvStat ''k3s'', EvStat ''k3s'',
         EvUpload (''10.0.0.9'', 22) ''k3s'' ''/usr/local/bin/k3s'',
         EvRun (''10.0.0.9'', 22) ''chmod +x /usr/local/bin/k3s'',
         EvUploadBytes (''10.0.0.9'', 22) ''uninstall /data/k3s'' ''/usr/local/bin/k3s-uninstall.sh'',
         EvRun (''10.0.0.9'', 22) ''chmod +x /usr/local/bin/k3s-uninstall.sh'',
         EvUploadBytes (''10.0.0.9'', 22)
           (agentServiceContent exInstaller (exNode ''a1'' ''10.0.0.9'') ''10.0.0.1'')
           ''/etc/systemd/system/k3s-agent.service'',
         EvRun (''10.0.0.9'', 22) ''systemctl daemon-reload'',
         EvRun (''10.0.0.9'', 22) ''systemctl enable k3s-agent'',
         EvRun (''10.0.0.9'', 22) ''systemctl restart k3s-agent'',
         EvSleep 2,
         EvClose (''10.0.0.9'', 22)]\<rparr>)"
  by (simp add: run_defs ex_defs)

end
